theory Spec2Isabelle
  imports Main "HOL-Library.Char_ord" "HOL-Library.List_Lexorder" "HOL-Library.Sublist"
begin

section \<open>Python values and the primitives the backend calls\<close>

text \<open>
  The backend (\<^verbatim>\<open>xapian_backend.py\<close>) is Python 2 code over dynamically typed values.
  The values that reach \<^verbatim>\<open>_marshal_value\<close> and \<^verbatim>\<open>build_query\<close> are modelled by one
  datatype. Integers are unbounded (\<^verbatim>\<open>int\<close> and \<^verbatim>\<open>long\<close>), text is a character list,
  a float is a value of an abstract type \<open>'f\<close>: the backend never computes with floats, it
  only hands them to \<^verbatim>\<open>xapian.sortable_serialise\<close> and to Python's \<^verbatim>\<open>float\<close> and \<^verbatim>\<open>str\<close>.
\<close>

record date =
  d_year :: nat
  d_month :: nat
  d_day :: nat

record datetime =
  year :: nat
  month :: nat
  day :: nat
  hour :: nat
  minute :: nat
  second :: nat
  microsecond :: nat

datatype 'f pyval =
    PInt int
  | PBool bool
  | PFloat 'f
  | PDate date
  | PDateTime datetime
  | PText string
  | PList "'f pyval list"
  | PTuple "'f pyval list"

datatype error =
    TypeError
  | ValueError
  | IndexError
  | OverflowError
  | AttributeError
  | UnboundLocalError
  | DatabaseOpeningError
  | QueryParserError

text \<open>
  What the source calls but does not define (Python built-ins and Xapian functions whose
  output format is not fixed by this repository) is a field of \<open>externals\<close>:
  \<^verbatim>\<open>xapian.sortable_serialise\<close>, \<^verbatim>\<open>str\<close> of a float, \<^verbatim>\<open>float\<close> and \<^verbatim>\<open>long\<close> of a
  string, of an integer and of a float, the truth value of a float, the \<^verbatim>\<open>repr\<close> of a list or tuple, and
  \<^verbatim>\<open>sys.maxint\<close>. A conversion that raises is \<open>None\<close>.
\<close>

record 'f externals =
  sortable_serialise :: "'f \<Rightarrow> string"
  float_str :: "'f \<Rightarrow> string"
  float_parse :: "string \<Rightarrow> 'f option"
  long_parse :: "string \<Rightarrow> int option"
  float_of_long :: "int \<Rightarrow> 'f"
  long_of_float :: "'f \<Rightarrow> int option"
  float_nonzero :: "'f \<Rightarrow> bool"
  seq_repr :: "'f pyval \<Rightarrow> string"
  maxint :: int

subsection \<open>Decimal formatting\<close>

definition digit_char :: "nat \<Rightarrow> char" where
  "digit_char n = char_of (48 + n)"

fun nat_digits :: "nat \<Rightarrow> string" where
  "nat_digits n = (if n < 10 then [digit_char n] else nat_digits (n div 10) @ [digit_char (n mod 10)])"

declare nat_digits.simps [simp del]

text \<open>Python's \<^verbatim>\<open>'%d' % i\<close>, which is also \<^verbatim>\<open>str(i)\<close>.\<close>

definition str_int :: "int \<Rightarrow> string" where
  "str_int i = (if i < 0 then CHR ''-'' # nat_digits (nat (- i)) else nat_digits (nat i))"

text \<open>
  Python's \<^verbatim>\<open>'%0wd' % i\<close>: the sign, then zeros, then the digits; the width counts the
  sign, and a number with more digits than the width is not cut.
\<close>

definition fmt_0d :: "nat \<Rightarrow> int \<Rightarrow> string" where
  "fmt_0d w i =
     (let ds = nat_digits (nat \<bar>i\<bar>);
          sgn = (if i < 0 then ''-'' else '''')
      in sgn @ replicate (w - length sgn - length ds) CHR ''0'' @ ds)"

fun join :: "string \<Rightarrow> string list \<Rightarrow> string" where
  "join sep [] = []"
| "join sep [x] = x"
| "join sep (x # y # ys) = x @ sep @ join sep (y # ys)"

subsection \<open>\<^verbatim>\<open>str\<close> of a value\<close>

text \<open>
  \<^verbatim>\<open>'%s' % v\<close>: decimal digits for an integer, \<^verbatim>\<open>True\<close>/\<^verbatim>\<open>False\<close> for a boolean,
  \<^verbatim>\<open>YYYY-MM-DD\<close> for a date, \<^verbatim>\<open>YYYY-MM-DD HH:MM:SS[.ffffff]\<close> for a datetime, the text
  itself for text, the \<^verbatim>\<open>repr\<close> for a list or a tuple.
\<close>

definition str_date :: "date \<Rightarrow> string" where
  "str_date d = fmt_0d 4 (int (d_year d)) @ ''-'' @ fmt_0d 2 (int (d_month d)) @ ''-'' @
     fmt_0d 2 (int (d_day d))"

definition format_datetime :: "char \<Rightarrow> datetime \<Rightarrow> string" where
  "format_datetime sep t =
     fmt_0d 4 (int (year t)) @ ''-'' @ fmt_0d 2 (int (month t)) @ ''-'' @ fmt_0d 2 (int (day t)) @
     [sep] @ fmt_0d 2 (int (hour t)) @ '':'' @ fmt_0d 2 (int (minute t)) @ '':'' @
     fmt_0d 2 (int (second t)) @
     (if microsecond t \<noteq> 0 then ''.'' @ fmt_0d 6 (int (microsecond t)) else '''')"

definition py_str :: "'f externals \<Rightarrow> 'f pyval \<Rightarrow> string" where
  "py_str E v =
     (case v of
        PInt i \<Rightarrow> str_int i
      | PBool b \<Rightarrow> (if b then ''True'' else ''False'')
      | PFloat x \<Rightarrow> float_str E x
      | PDate d \<Rightarrow> str_date d
      | PDateTime t \<Rightarrow> format_datetime CHR '' '' t
      | PText s \<Rightarrow> s
      | PList xs \<Rightarrow> seq_repr E v
      | PTuple xs \<Rightarrow> seq_repr E v)"

section \<open>The value marshaller\<close>

text \<open>
  \<^verbatim>\<open>SearchBackend._marshal_value\<close>. The branches are tried in the source's order:
  datetime (with and without microseconds), date, bool, float, int/long, and
  \<^verbatim>\<open>force_unicode\<close> for everything else. Text is taken as already decoded, so
  \<^verbatim>\<open>force_unicode\<close> returns it as it is; for a list or a tuple it is the text of its
  \<^verbatim>\<open>repr\<close>.
\<close>

definition marshal_value :: "'f externals \<Rightarrow> 'f pyval \<Rightarrow> string" where
  "marshal_value E v =
     (case v of
        PDateTime t \<Rightarrow>
          (if microsecond t \<noteq> 0
           then fmt_0d 4 (int (year t)) @ fmt_0d 2 (int (month t)) @ fmt_0d 2 (int (day t)) @
                fmt_0d 2 (int (hour t)) @ fmt_0d 2 (int (minute t)) @ fmt_0d 2 (int (second t)) @
                fmt_0d 6 (int (microsecond t))
           else fmt_0d 4 (int (year t)) @ fmt_0d 2 (int (month t)) @ fmt_0d 2 (int (day t)) @
                fmt_0d 2 (int (hour t)) @ fmt_0d 2 (int (minute t)) @ fmt_0d 2 (int (second t)))
      | PDate d \<Rightarrow>
          fmt_0d 4 (int (d_year d)) @ fmt_0d 2 (int (d_month d)) @ fmt_0d 2 (int (d_day d)) @
          ''000000''
      | PBool b \<Rightarrow> (if b then ''t'' else ''f'')
      | PFloat x \<Rightarrow> sortable_serialise E x
      | PInt i \<Rightarrow> fmt_0d 12 i
      | PText s \<Rightarrow> s
      | PList xs \<Rightarrow> seq_repr E v
      | PTuple xs \<Rightarrow> seq_repr E v)"

section \<open>The query compiler\<close>

text \<open>
  A filter of \<^verbatim>\<open>self.query_filters\<close>: its field, its filter type, its value and what
  its methods \<^verbatim>\<open>is_and()\<close>, \<^verbatim>\<open>is_or()\<close> and \<^verbatim>\<open>is_not()\<close> answer.
\<close>

datatype filter_type = Exact | Gte | Gt | Lte | Lt | Startswith | In

record 'f query_filter =
  field :: string
  ftype :: filter_type
  fvalue :: "'f pyval"
  is_and :: bool
  is_or :: bool
  is_not :: bool

text \<open>\<^verbatim>\<open>' ' in value\<close>: a substring test on text, a membership test on a list or tuple.\<close>

definition has_space :: "'f pyval \<Rightarrow> bool" where
  "has_space v =
     (case v of
        PText s \<Rightarrow> CHR '' '' \<in> set s
      | PList xs \<Rightarrow> PText '' '' \<in> set xs
      | PTuple xs \<Rightarrow> PText '' '' \<in> set xs
      | _ \<Rightarrow> False)"

text \<open>
  \<^verbatim>\<open>'"%s"' % value\<close>. A tuple on the right of \<^verbatim>\<open>%\<close> is the argument list itself: one
  element fills the one \<^verbatim>\<open>%s\<close>, any other length raises \<^verbatim>\<open>TypeError\<close>.
\<close>

definition quote_value :: "'f externals \<Rightarrow> 'f pyval \<Rightarrow> error + 'f pyval" where
  "quote_value E v =
     (case v of
        PTuple xs \<Rightarrow>
          (case xs of
             [x] \<Rightarrow> Inr (PText ([CHR 0x22] @ py_str E x @ [CHR 0x22]))
           | _ \<Rightarrow> Inl TypeError)
      | _ \<Rightarrow> Inr (PText ([CHR 0x22] @ py_str E v @ [CHR 0x22])))"

text \<open>The two tables \<^verbatim>\<open>filter_types\<close>, applied to \<^verbatim>\<open>(field, value)\<close>.\<close>

fun filter_pattern :: "bool \<Rightarrow> filter_type \<Rightarrow> string \<Rightarrow> string \<Rightarrow> string" where
  "filter_pattern True Exact f v = ''NOT '' @ f @ '':'' @ v"
| "filter_pattern True Gte f v = ''NOT '' @ f @ '':'' @ v @ ''..*''"
| "filter_pattern True Gt f v = f @ '':..'' @ v"
| "filter_pattern True Lte f v = ''NOT '' @ f @ '':..'' @ v"
| "filter_pattern True Lt f v = f @ '':'' @ v @ ''..*''"
| "filter_pattern True Startswith f v = ''NOT '' @ f @ '':'' @ v @ ''*''"
| "filter_pattern False Exact f v = f @ '':'' @ v"
| "filter_pattern False Gte f v = f @ '':'' @ v @ ''..*''"
| "filter_pattern False Gt f v = ''NOT '' @ f @ '':..'' @ v"
| "filter_pattern False Lte f v = f @ '':..'' @ v"
| "filter_pattern False Lt f v = ''NOT '' @ f @ '':'' @ v @ ''..*''"
| "filter_pattern False Startswith f v = f @ '':'' @ v @ ''*''"
| "filter_pattern neg In f v = []"

text \<open>\<^verbatim>\<open>for possible_value in value\<close>: the characters of a text, the elements of a sequence.\<close>

definition iter_value :: "'f pyval \<Rightarrow> 'f pyval list" where
  "iter_value v =
     (case v of
        PText s \<Rightarrow> map (\<lambda>c. PText [c]) s
      | PList xs \<Rightarrow> xs
      | PTuple xs \<Rightarrow> xs
      | _ \<Rightarrow> [])"

text \<open>
  The body of the loop over \<^verbatim>\<open>self.query_filters\<close>: the chunks one filter appends to
  \<^verbatim>\<open>query_chunks\<close>. A chunk is a Python value, since for the field \<^verbatim>\<open>content\<close> the
  value is appended as it is, also when it is a list.
\<close>

definition filter_chunks :: "'f externals \<Rightarrow> 'f query_filter \<Rightarrow> error + 'f pyval list" where
  "filter_chunks E the_filter =
     (let c1 = (if is_and the_filter then [PText ''AND''] else []);
          c2 = (if is_or the_filter then [PText ''OR''] else []);
          c3 = (if is_not the_filter \<and> field the_filter = ''content'' then [PText ''NOT''] else []);
          v0 = fvalue the_filter;
          v1 = (case v0 of PList xs \<Rightarrow> v0 | PTuple xs \<Rightarrow> v0 | _ \<Rightarrow> PText (marshal_value E v0))
      in case (if has_space v1 then quote_value E v1 else Inr v1) of
           Inl e \<Rightarrow> Inl e
         | Inr v \<Rightarrow>
             if field the_filter = ''content'' then Inr (c1 @ c2 @ c3 @ [v])
             else
               let c4 = (if is_not the_filter then [PText ''AND''] else []);
                   opts = map (\<lambda>pv. field the_filter @ '':'' @ py_str E pv) (iter_value v)
               in if ftype the_filter \<noteq> In
                  then Inr (c1 @ c2 @ c3 @ c4 @
                         [PText (filter_pattern (is_not the_filter) (ftype the_filter)
                                   (field the_filter) (py_str E v))])
                  else if is_not the_filter
                  then Inr (c1 @ c2 @ c3 @ c4 @ [PText (''NOT '' @ join '' NOT '' opts)])
                  else Inr (c1 @ c2 @ c3 @ c4 @ [PText (''('' @ join '' OR '' opts @ '')'')]))"

fun all_chunks :: "'f externals \<Rightarrow> 'f query_filter list \<Rightarrow> error + 'f pyval list" where
  "all_chunks E [] = Inr []"
| "all_chunks E (f # fs) =
     (case filter_chunks E f of
        Inl e \<Rightarrow> Inl e
      | Inr cs \<Rightarrow> (case all_chunks E fs of Inl e \<Rightarrow> Inl e | Inr ds \<Rightarrow> Inr (cs @ ds)))"

text \<open>\<^verbatim>\<open>' '.join(query_chunks)\<close> raises \<^verbatim>\<open>TypeError\<close> on a chunk that is not text.\<close>

fun chunk_texts :: "'f pyval list \<Rightarrow> error + string list" where
  "chunk_texts [] = Inr []"
| "chunk_texts (PText s # cs) = (case chunk_texts cs of Inl e \<Rightarrow> Inl e | Inr ss \<Rightarrow> Inr (s # ss))"
| "chunk_texts (c # cs) = Inl TypeError"

text \<open>
  \<^verbatim>\<open>SearchQuery.build_query\<close>; \<open>models\<close> is the list of \<^verbatim>\<open>(app_label, module_name)\<close> of
  \<^verbatim>\<open>self.models\<close>.
\<close>

definition build_query ::
  "'f externals \<Rightarrow> 'f query_filter list \<Rightarrow> (string \<times> string) list \<Rightarrow> error + string" where
  "build_query E query_filters models =
     (case (if query_filters = [] then Inr ''*''
            else case all_chunks E query_filters of
                   Inl e \<Rightarrow> Inl e
                 | Inr [] \<Rightarrow> Inl IndexError
                 | Inr (c # cs) \<Rightarrow>
                     (case chunk_texts (if c = PText ''AND'' \<or> c = PText ''OR'' then cs else c # cs) of
                        Inl e \<Rightarrow> Inl e
                      | Inr ss \<Rightarrow> Inr (join '' '' ss))) of
        Inl e \<Rightarrow> Inl e
      | Inr query \<Rightarrow>
          if models \<noteq> []
          then Inr (''('' @ query @ '') '' @
                    join '' '' (map (\<lambda>(app_label, module_name).
                                       ''django_ct:'' @ app_label @ ''.'' @ module_name) models))
          else Inr query)"

section \<open>The schema\<close>

text \<open>
  One entry of \<^verbatim>\<open>self.schema\<close>, the dictionary \<^verbatim>\<open>build_schema\<close> makes for an indexed
  field. The type and the multiplicity are kept as the strings the source stores.
\<close>

record field_dict =
  field_name :: string
  field_type :: string
  multi_valued :: string
  column :: nat

datatype field_kind =
    DateField | DateTimeField | IntegerField | FloatField | BooleanField | MultiValueField
  | OtherField

record field_class =
  document :: bool
  indexed :: bool
  kind :: field_kind

definition field_data :: "string \<Rightarrow> field_class \<Rightarrow> nat \<Rightarrow> field_dict" where
  "field_data name fc col =
     (let fd = \<lparr>field_name = name, field_type = ''text'', multi_valued = ''false'', column = col\<rparr>
      in if kind fc = DateField \<or> kind fc = DateTimeField then fd\<lparr>field_type := ''date''\<rparr>
         else if kind fc = IntegerField then fd\<lparr>field_type := ''long''\<rparr>
         else if kind fc = FloatField then fd\<lparr>field_type := ''float''\<rparr>
         else if kind fc = BooleanField then fd\<lparr>field_type := ''boolean''\<rparr>
         else if kind fc = MultiValueField then fd\<lparr>multi_valued := ''true''\<rparr>
         else fd)"

text \<open>
  The loop of \<^verbatim>\<open>build_schema\<close> over \<^verbatim>\<open>fields.items()\<close>, with the running
  \<^verbatim>\<open>content_field_name\<close> and \<^verbatim>\<open>column\<close>.
\<close>

fun schema_loop ::
  "(string \<times> field_class) list \<Rightarrow> string \<Rightarrow> nat \<Rightarrow> string \<times> field_dict list" where
  "schema_loop [] content_field_name col = (content_field_name, [])"
| "schema_loop ((name, fc) # rest) content_field_name col =
     (let cfn = (if document fc then name else content_field_name)
      in if indexed fc
         then (case schema_loop rest cfn (col + 1) of
                 (c, schema_fields) \<Rightarrow> (c, field_data name fc col # schema_fields))
         else schema_loop rest cfn col)"

definition build_schema :: "(string \<times> field_class) list \<Rightarrow> string \<times> field_dict list" where
  "build_schema field_list = schema_loop field_list [] 0"

text \<open>\<^verbatim>\<open>SearchBackend._value_column\<close>: the first entry with the name, else 0.\<close>

fun value_column :: "field_dict list \<Rightarrow> string \<Rightarrow> nat" where
  "value_column [] fld = 0"
| "value_column (field_dict # schema) fld =
     (if field_name field_dict = fld then column field_dict else value_column schema fld)"

text \<open>
  \<^verbatim>\<open>SearchBackend._sorter\<close>: the \<^verbatim>\<open>xapian.MultiValueSorter\<close> is the list of the
  \<^verbatim>\<open>(column, reverse)\<close> pairs added to it, in order.
\<close>

fun sorter :: "field_dict list \<Rightarrow> string list \<Rightarrow> (nat \<times> bool) list" where
  "sorter schema [] = []"
| "sorter schema (sort_field # sort_by) =
     (case sort_field of
        c # rest \<Rightarrow>
          (if c = CHR ''-'' then (value_column schema rest, True)
           else (value_column schema sort_field, False))
      | [] \<Rightarrow> (value_column schema sort_field, False)) # sorter schema sort_by"

section \<open>The range processor\<close>

text \<open>
  In \<^verbatim>\<open>XHValueRangeProcessor.__call__\<close> the variables \<^verbatim>\<open>begin\<close> and \<^verbatim>\<open>end\<close> hold a
  string, an integer or a float, depending on the branch taken.
\<close>

datatype 'f bound = BStr string | BLong int | BFloat 'f

text \<open>\<^verbatim>\<open>s.find(c)\<close>: the index of the first \<^verbatim>\<open>c\<close>, or -1.\<close>

definition py_find :: "char \<Rightarrow> string \<Rightarrow> int" where
  "py_find c s = (if c \<in> set s then int (length (takeWhile (\<lambda>x. x \<noteq> c) s)) else - 1)"

text \<open>\<^verbatim>\<open>s[:i]\<close> and \<^verbatim>\<open>s[i:len(s)]\<close>; a negative index counts from the end.\<close>

definition slice_to :: "string \<Rightarrow> int \<Rightarrow> string" where
  "slice_to s i = (if i < 0 then take (nat (int (length s) + i)) s else take (nat i) s)"

definition slice_from :: "string \<Rightarrow> int \<Rightarrow> string" where
  "slice_from s i = (if i < 0 then drop (nat (int (length s) + i)) s else drop (nat i) s)"

definition py_float :: "'f externals \<Rightarrow> 'f bound \<Rightarrow> error + 'f" where
  "py_float E b =
     (case b of
        BStr s \<Rightarrow> (case float_parse E s of None \<Rightarrow> Inl ValueError | Some x \<Rightarrow> Inr x)
      | BLong i \<Rightarrow> Inr (float_of_long E i)
      | BFloat x \<Rightarrow> Inr x)"

definition py_long :: "'f externals \<Rightarrow> 'f bound \<Rightarrow> error + int" where
  "py_long E b =
     (case b of
        BStr s \<Rightarrow> (case long_parse E s of None \<Rightarrow> Inl ValueError | Some i \<Rightarrow> Inr i)
      | BLong i \<Rightarrow> Inr i
      | BFloat x \<Rightarrow> (case long_of_float E x of None \<Rightarrow> Inl OverflowError | Some i \<Rightarrow> Inr i))"

definition str_bound :: "'f externals \<Rightarrow> 'f bound \<Rightarrow> string" where
  "str_bound E b = (case b of BStr s \<Rightarrow> s | BLong i \<Rightarrow> str_int i | BFloat x \<Rightarrow> float_str E x)"

text \<open>
  The two chains of \<^verbatim>\<open>if\<close>/\<^verbatim>\<open>elif\<close> on the field type: the value that replaces an
  omitted low bound, and the value that replaces the high bound \<^verbatim>\<open>*\<close>. A type that no
  branch names leaves the bound as it is.
\<close>

definition min_sentinel :: "'f externals \<Rightarrow> string \<Rightarrow> 'f bound \<Rightarrow> error + 'f bound" where
  "min_sentinel E ty b =
     (if ty = ''text'' then Inr (BStr ''a'')
      else if ty = ''long'' then Inr (BLong (- maxint E - 1))
      else if ty = ''float''
      then (case py_float E (BStr ''-inf'') of Inl e \<Rightarrow> Inl e | Inr x \<Rightarrow> Inr (BFloat x))
      else if ty = ''date'' \<or> ty = ''datetime'' then Inr (BStr ''00010101000000'')
      else Inr b)"

definition max_sentinel :: "'f externals \<Rightarrow> string \<Rightarrow> 'f bound \<Rightarrow> error + 'f bound" where
  "max_sentinel E ty b =
     (if ty = ''text'' then Inr (BStr (replicate 100 CHR ''z''))
      else if ty = ''long'' then Inr (BLong (maxint E))
      else if ty = ''float''
      then (case py_float E (BStr ''inf'') of Inl e \<Rightarrow> Inl e | Inr x \<Rightarrow> Inr (BFloat x))
      else if ty = ''date'' \<or> ty = ''datetime'' then Inr (BStr ''99990101000000'')
      else Inr b)"

text \<open>
  The body run for the schema entry whose name is the token's field: the sentinels
  (\<^verbatim>\<open>if not begin: ... elif end == '*': ...\<close>), then the marshalling of float and long
  bounds, then the triple \<^verbatim>\<open>(column, str(begin), str(end))\<close>.
\<close>

definition range_for_field ::
  "'f externals \<Rightarrow> field_dict \<Rightarrow> string \<Rightarrow> string \<Rightarrow> error + nat \<times> string \<times> string" where
  "range_for_field E field_dict begin end =
     (case (if begin = [] then
              (case min_sentinel E (field_type field_dict) (BStr begin) of
                 Inl e \<Rightarrow> Inl e | Inr b \<Rightarrow> Inr (b, BStr end))
            else if end = ''*'' then
              (case max_sentinel E (field_type field_dict) (BStr end) of
                 Inl e \<Rightarrow> Inl e | Inr e' \<Rightarrow> Inr (BStr begin, e'))
            else Inr (BStr begin, BStr end)) of
        Inl e \<Rightarrow> Inl e
      | Inr (b, e') \<Rightarrow>
          if field_type field_dict = ''float'' then
            (case py_float E b of
               Inl e \<Rightarrow> Inl e
             | Inr x \<Rightarrow>
                 (case py_float E e' of
                    Inl e \<Rightarrow> Inl e
                  | Inr y \<Rightarrow>
                      Inr (column field_dict, marshal_value E (PFloat x), marshal_value E (PFloat y))))
          else if field_type field_dict = ''long'' then
            (case py_long E b of
               Inl e \<Rightarrow> Inl e
             | Inr i \<Rightarrow>
                 (case py_long E e' of
                    Inl e \<Rightarrow> Inl e
                  | Inr j \<Rightarrow>
                      Inr (column field_dict, marshal_value E (PInt i), marshal_value E (PInt j))))
          else Inr (column field_dict, str_bound E b, str_bound E e'))"

text \<open>
  The loop over \<^verbatim>\<open>self.sb.schema\<close>: the first entry with the field's name decides; when
  there is none the method ends without a \<^verbatim>\<open>return\<close>, which is \<open>None\<close>.
\<close>

fun range_loop ::
  "'f externals \<Rightarrow> field_dict list \<Rightarrow> string \<Rightarrow> string \<Rightarrow> string \<Rightarrow>
   error + (nat \<times> string \<times> string) option" where
  "range_loop E [] fname begin end = Inr None"
| "range_loop E (field_dict # schema) fname begin end =
     (if field_name field_dict = fname
      then (case range_for_field E field_dict begin end of Inl e \<Rightarrow> Inl e | Inr r \<Rightarrow> Inr (Some r))
      else range_loop E schema fname begin end)"

definition value_range_processor ::
  "'f externals \<Rightarrow> field_dict list \<Rightarrow> string \<Rightarrow> string \<Rightarrow>
   error + (nat \<times> string \<times> string) option" where
  "value_range_processor E schema begin end =
     (let colon = py_find CHR '':'' begin;
          fname = slice_to begin colon;
          begin' = slice_from begin (colon + 1)
      in range_loop E schema fname begin' end)"

section \<open>Dates and times\<close>

text \<open>
  What \<^verbatim>\<open>_do_date_facets\<close> uses of Python's \<^verbatim>\<open>datetime\<close>: the comparison, \<^verbatim>\<open>replace\<close>,
  the addition of a \<^verbatim>\<open>timedelta\<close>, \<^verbatim>\<open>isoformat\<close> and \<^verbatim>\<open>strptime\<close>, in the proleptic
  Gregorian calendar of the years 1 to 9999. Time zones are not modelled.
\<close>

definition is_leap :: "nat \<Rightarrow> bool" where
  "is_leap y = (y mod 4 = 0 \<and> (y mod 100 \<noteq> 0 \<or> y mod 400 = 0))"

definition days_in_month :: "nat \<Rightarrow> nat \<Rightarrow> nat" where
  "days_in_month y m =
     (if m = 2 \<and> is_leap y then 29
      else [31, 28, 31, 30, 31, 30, 31, 31, 30, 31, 30, 31] ! (m - 1))"

definition days_before_month :: "nat \<Rightarrow> nat \<Rightarrow> nat" where
  "days_before_month y m =
     [0, 0, 31, 59, 90, 120, 151, 181, 212, 243, 273, 304, 334] ! m +
     (if m > 2 \<and> is_leap y then 1 else 0)"

definition days_before_year :: "nat \<Rightarrow> nat" where
  "days_before_year y = (y - 1) * 365 + (y - 1) div 4 - (y - 1) div 100 + (y - 1) div 400"

definition ymd2ord :: "nat \<Rightarrow> nat \<Rightarrow> nat \<Rightarrow> nat" where
  "ymd2ord y m d = days_before_year y + days_before_month y m + d"

text \<open>The inverse, as the standard library computes it (\<^verbatim>\<open>_ord2ymd\<close>).\<close>

definition ord2ymd :: "nat \<Rightarrow> nat \<times> nat \<times> nat" where
  "ord2ymd n0 =
     (let n = n0 - 1;
          n400 = n div 146097; n = n mod 146097;
          n100 = n div 36524; n = n mod 36524;
          n4 = n div 1461; n = n mod 1461;
          n1 = n div 365; n = n mod 365;
          y = n400 * 400 + 1 + n100 * 100 + n4 * 4 + n1
      in if n1 = 4 \<or> n100 = 4 then (y - 1, 12, 31)
         else
           let leapyear = (n1 = 3 \<and> (n4 \<noteq> 24 \<or> n100 = 3));
               m = (n + 50) div 32;
               preceding = [0, 0, 31, 59, 90, 120, 151, 181, 212, 243, 273, 304, 334] ! m +
                           (if m > 2 \<and> leapyear then 1 else 0)
           in if preceding > n
              then (y, m - 1,
                    n - (preceding -
                         ([31, 28, 31, 30, 31, 30, 31, 31, 30, 31, 30, 31] ! (m - 2) +
                          (if m - 1 = 2 \<and> leapyear then 1 else 0))) + 1)
              else (y, m, n - preceding + 1))"

text \<open>\<^verbatim>\<open>a < b\<close> on datetimes: the fields in order.\<close>

definition dt_fields :: "datetime \<Rightarrow> nat list" where
  "dt_fields t = [year t, month t, day t, hour t, minute t, second t, microsecond t]"

definition dt_less :: "datetime \<Rightarrow> datetime \<Rightarrow> bool" where
  "dt_less a b = (dt_fields a < dt_fields b)"

text \<open>
  \<^verbatim>\<open>t.replace(year=y, month=m)\<close>: \<^verbatim>\<open>ValueError\<close> when the year, the month or the day of
  the new date is out of range, \<^verbatim>\<open>OverflowError\<close> when an argument does not fit a C int.
\<close>

definition dt_replace :: "datetime \<Rightarrow> int \<Rightarrow> int \<Rightarrow> error + datetime" where
  "dt_replace t y m =
     (if y < - 2147483648 \<or> 2147483647 < y \<or> m < - 2147483648 \<or> 2147483647 < m
      then Inl OverflowError
      else if 1 \<le> y \<and> y \<le> 9999 \<and> 1 \<le> m \<and> m \<le> 12 \<and> 1 \<le> day t \<and>
              day t \<le> days_in_month (nat y) (nat m)
      then Inr (t\<lparr>year := nat y, month := nat m\<rparr>)
      else Inl ValueError)"

text \<open>
  \<^verbatim>\<open>t + timedelta(seconds=delta)\<close>; days, hours and minutes are multiples of seconds. A
  delta or a sum out of range raises \<^verbatim>\<open>OverflowError\<close>.
\<close>

definition dt_add_seconds :: "datetime \<Rightarrow> int \<Rightarrow> error + datetime" where
  "dt_add_seconds t delta =
     (let total = int (ymd2ord (year t) (month t) (day t)) * 86400 +
                  int (hour t * 3600 + minute t * 60 + second t) + delta;
          ordinal = total div 86400;
          r = nat (total mod 86400)
      in if ordinal < 1 \<or> 3652059 < ordinal then Inl OverflowError
         else case ord2ymd (nat ordinal) of
                (y, m, d) \<Rightarrow>
                  Inr \<lparr>year = y, month = m, day = d, hour = r div 3600,
                       minute = r mod 3600 div 60, second = r mod 60,
                       microsecond = microsecond t\<rparr>)"

definition isoformat :: "datetime \<Rightarrow> string" where
  "isoformat t = format_datetime CHR ''T'' t"

definition digit_val :: "char \<Rightarrow> nat option" where
  "digit_val c = (let n = of_char c in if (48::nat) \<le> n \<and> n \<le> 57 then Some (n - 48) else None)"

fun parse_nat :: "nat \<Rightarrow> string \<Rightarrow> nat option" where
  "parse_nat acc [] = Some acc"
| "parse_nat acc (c # cs) =
     (case digit_val c of None \<Rightarrow> None | Some d \<Rightarrow> parse_nat (10 * acc + d) cs)"

text \<open>
  \<^verbatim>\<open>datetime.strptime(s, '%Y-%m-%dT%H:%M:%S')\<close> on a string that \<^verbatim>\<open>isoformat\<close> made:
  nineteen characters, digits and separators in their places, a date that exists.
  Anything else (the microseconds of \<^verbatim>\<open>isoformat\<close> among it) raises \<^verbatim>\<open>ValueError\<close>.
\<close>

definition strptime :: "string \<Rightarrow> error + datetime" where
  "strptime s =
     (if length s = 19 \<and> s ! 4 = CHR ''-'' \<and> s ! 7 = CHR ''-'' \<and> s ! 10 = CHR ''T'' \<and>
         s ! 13 = CHR '':'' \<and> s ! 16 = CHR '':''
      then
        (case (parse_nat 0 (take 4 s), parse_nat 0 (take 2 (drop 5 s)),
               parse_nat 0 (take 2 (drop 8 s)), parse_nat 0 (take 2 (drop 11 s)),
               parse_nat 0 (take 2 (drop 14 s)), parse_nat 0 (take 2 (drop 17 s))) of
           (Some y, Some m, Some d, Some h, Some mi, Some se) \<Rightarrow>
             if 1 \<le> y \<and> 1 \<le> m \<and> m \<le> 12 \<and> 1 \<le> d \<and> d \<le> days_in_month y m \<and>
                h \<le> 23 \<and> mi \<le> 59 \<and> se \<le> 61
             then Inr \<lparr>year = y, month = m, day = d, hour = h, minute = mi,
                       second = (if se < 60 then se else 59), microsecond = 0\<rparr>
             else Inl ValueError
         | _ \<Rightarrow> Inl ValueError)
      else Inl ValueError)"

section \<open>Date facets\<close>

text \<open>
  The parameters of one date facet: \<^verbatim>\<open>start_date\<close> and \<^verbatim>\<open>end_date\<close> are datetimes,
  \<^verbatim>\<open>gap_by\<close> is what \<^verbatim>\<open>facet_params.get('gap_by')\<close> returns (\<open>None\<close> when the key is
  missing), \<^verbatim>\<open>gap_amount\<close> is \<^verbatim>\<open>int(facet_params.get('gap_amount', 1))\<close>.
\<close>

record facet_params =
  start_date :: datetime
  end_date :: datetime
  gap_by :: "string option"
  gap_amount :: int

text \<open>One pass of the body of the \<^verbatim>\<open>while\<close> loop: the next value of \<^verbatim>\<open>date_range\<close>.\<close>

definition next_date :: "string option \<Rightarrow> int \<Rightarrow> datetime \<Rightarrow> error + datetime" where
  "next_date gap_type gap_value date_range =
     (if gap_type = Some ''year''
      then dt_replace date_range (int (year date_range) + gap_value) (int (month date_range))
      else if gap_type = Some ''month''
      then (if month date_range = 12
            then dt_replace date_range (int (year date_range) + gap_value) 1
            else dt_replace date_range (int (year date_range))
                   (int (month date_range) + gap_value))
      else if gap_type = Some ''day'' then dt_add_seconds date_range (gap_value * 86400)
      else if gap_type = Some ''hour'' then dt_add_seconds date_range (gap_value * 3600)
      else if gap_type = Some ''minute'' then dt_add_seconds date_range (gap_value * 60)
      else if gap_type = Some ''second'' then dt_add_seconds date_range gap_value
      else Inr date_range)"

text \<open>
  The loop \<^verbatim>\<open>while date_range < facet_params['end_date']\<close>. It need not end (a gap of 0,
  a gap type that no branch names): the result is \<open>None\<close> when it does not.
\<close>

partial_function (option) bucket_loop ::
  "string option \<Rightarrow> int \<Rightarrow> datetime \<Rightarrow> datetime \<Rightarrow> (string \<times> nat) list \<Rightarrow>
   (error + (string \<times> nat) list) option" where
  "bucket_loop gap_type gap_value end_d date_range facet_list =
     (if dt_less date_range end_d
      then (case next_date gap_type gap_value date_range of
              Inl e \<Rightarrow> Some (Inl e)
            | Inr d \<Rightarrow>
                bucket_loop gap_type gap_value end_d d
                  (facet_list @ [(isoformat date_range, 0)]))
      else Some (Inr facet_list))"

declare bucket_loop.simps [code]

text \<open>
  \<^verbatim>\<open>sorted(facet_list, key=lambda n: n[0], reverse=True)\<close>: descending by the ISO string,
  entries with equal strings in their first order.
\<close>

definition sorted_reverse :: "(string \<times> nat) list \<Rightarrow> (string \<times> nat) list" where
  "sorted_reverse facet_list = rev (sort_key fst (rev facet_list))"

text \<open>
  The loop \<^verbatim>\<open>for n, facet_date in enumerate(facet_list)\<close> for one result date: the first
  entry whose date is less than the result's gets one more, and the loop breaks.
\<close>

fun tally :: "datetime \<Rightarrow> (string \<times> nat) list \<Rightarrow> error + (string \<times> nat) list" where
  "tally result_date [] = Inr []"
| "tally result_date ((s, c) # facet_list) =
     (case strptime s of
        Inl e \<Rightarrow> Inl e
      | Inr b \<Rightarrow>
          if dt_less b result_date then Inr ((s, c + 1) # facet_list)
          else (case tally result_date facet_list of
                  Inl e \<Rightarrow> Inl e
                | Inr r \<Rightarrow> Inr ((s, c) # r)))"

text \<open>
  A set of primitives for a program that handles no floats: the float type is \<open>unit\<close>,
  the integer parser reads unsigned decimal numerals only.
\<close>

definition no_floats :: "unit externals" where
  "no_floats =
     \<lparr>sortable_serialise = (\<lambda>_. []),
      float_str = (\<lambda>_. []),
      float_parse = (\<lambda>_. None),
      long_parse = (\<lambda>s. if s = [] then None else map_option int (parse_nat 0 s)),
      float_of_long = (\<lambda>_. ()),
      long_of_float = (\<lambda>_. None),
      float_nonzero = (\<lambda>_. False),
      seq_repr = (\<lambda>_. []),
      maxint = 9223372036854775807\<rparr>"

section \<open>The index store and the engine\<close>

text \<open>
  A stored document as the backend sees it: the engine's document id, the terms, the
  value slots, and the unpickled data \<^verbatim>\<open>(app_label, module_name, pk, model_data)\<close>.
  The index at \<^verbatim>\<open>HAYSTACK_XAPIAN_PATH\<close> holds the documents in ascending order of their
  ids and the two metadata entries that \<^verbatim>\<open>_database\<close> writes.
\<close>

record 'f document =
  docid :: nat
  terms :: "string list"
  slots :: "(nat \<times> string) list"
  data :: "string \<times> string \<times> 'f pyval \<times> (string \<times> 'f pyval) list"

record 'f index_store =
  documents :: "'f document list"
  metadata_schema :: "field_dict list"
  metadata_content :: string

text \<open>
  The \<^verbatim>\<open>xapian.Query\<close> objects the backend builds, with the documents each matches.
  \<^verbatim>\<open>Query('')\<close> matches every document; an operator over no subquery matches none.
\<close>

datatype 'f query =
    MatchAll
  | QTerm string
  | OpAnd "'f query list"
  | OpOr "'f query list"
  | OpAndNot "'f query" "'f query"
  | OpFilter "'f query" "'f query"
  | OpScaleWeight "'f query" "'f pyval"
  | ValueRange nat string string

fun matches :: "'f query \<Rightarrow> 'f document \<Rightarrow> bool" where
  "matches MatchAll d = True"
| "matches (QTerm t) d = (t \<in> set (terms d))"
| "matches (OpAnd qs) d = (qs \<noteq> [] \<and> (\<forall>q \<in> set qs. matches q d))"
| "matches (OpOr qs) d = (\<exists>q \<in> set qs. matches q d)"
| "matches (OpAndNot a b) d = (matches a d \<and> \<not> matches b d)"
| "matches (OpFilter a b) d = (matches a d \<and> matches b d)"
| "matches (OpScaleWeight q v) d = matches q d"
| "matches (ValueRange c lo hi) d =
     (case map_of (slots d) c of None \<Rightarrow> False | Some v \<Rightarrow> lo \<le> v \<and> v \<le> hi)"

datatype flag =
    FLAG_PARTIAL | FLAG_PHRASE | FLAG_BOOLEAN | FLAG_LOVEHATE | FLAG_WILDCARD | FLAG_PURE_NOT
  | FLAG_SPELLING_CORRECTION

text \<open>
  What the backend takes from its surroundings: the Python and Xapian primitives, the
  setting \<^verbatim>\<open>HAYSTACK_INCLUDE_SPELLING\<close>, the fields of the site, and the parts of the
  engine that this repository does not define: the query parser (given the database, the
  prefixes, the value range processor, the string and the flags), its corrected query
  string, the order in which the engine lists documents in a match set (by sort key,
  relevance and document id), the weight of a match, the estimated number of matches, the
  expansion terms the engine proposes for a relevance set, and \<^verbatim>\<open>re.sub\<close> for a
  literal pattern without regard to case.
\<close>

record 'f engine =
  ext :: "'f externals"
  include_spelling :: bool
  site_fields :: "(string \<times> field_class) list"
  parse_query ::
    "'f index_store \<Rightarrow> (string \<times> string) list \<Rightarrow>
     (string \<Rightarrow> string \<Rightarrow> error + (nat \<times> string \<times> string) option) \<Rightarrow>
     string \<Rightarrow> flag list \<Rightarrow> error + 'f query"
  corrected_query_string :: "'f index_store \<Rightarrow> string \<Rightarrow> string"
  mset_order :: "(nat \<times> bool) list option \<Rightarrow> 'f query \<Rightarrow> 'f document list \<Rightarrow> 'f document list"
  weight :: "'f query \<Rightarrow> 'f document \<Rightarrow> 'f"
  matches_estimated :: "'f query \<Rightarrow> 'f document list \<Rightarrow> nat"
  expand_terms :: "'f document list \<Rightarrow> 'f document list \<Rightarrow> string list"
  re_sub :: "string \<Rightarrow> string \<Rightarrow> string \<Rightarrow> string"

definition DEFAULT_MAX_RESULTS :: nat where
  "DEFAULT_MAX_RESULTS = 100000"

definition DOCUMENT_ID_TERM_PREFIX :: string where
  "DOCUMENT_ID_TERM_PREFIX = ''Q''"

definition DOCUMENT_CUSTOM_TERM_PREFIX :: string where
  "DOCUMENT_CUSTOM_TERM_PREFIX = ''X''"

definition DOCUMENT_CT_TERM_PREFIX :: string where
  "DOCUMENT_CT_TERM_PREFIX = DOCUMENT_CUSTOM_TERM_PREFIX @ ''CONTENTTYPE''"

subsection \<open>State, warnings and errors\<close>

text \<open>
  The methods of the backend run in a world: the index on disk (absent before the
  first writable open), the attributes \<^verbatim>\<open>self.schema\<close> and \<^verbatim>\<open>self.content_field_name\<close>,
  and a log of the warnings issued and of the calls made to the engine. A method either
  raises or returns, and leaves a new world; a method that does not return has no result
  at all (\<open>None\<close>).
\<close>

datatype event =
    Warn string
  | OpenDatabase bool
  | ParseQuery string
  | GetMSet nat nat
  | GetESet nat
  | DeleteDocId nat
  | DeleteTerm string

record 'f world =
  store :: "'f index_store option"
  self_schema :: "field_dict list"
  self_content_field_name :: string
  log :: "event list"

type_synonym ('f, 'a) m = "'f world \<Rightarrow> ((error + 'a) \<times> 'f world) option"

definition m_ret :: "'a \<Rightarrow> ('f, 'a) m" where
  "m_ret x = (\<lambda>w. Some (Inr x, w))"

definition m_raise :: "error \<Rightarrow> ('f, 'a) m" where
  "m_raise e = (\<lambda>w. Some (Inl e, w))"

definition m_bind :: "('f, 'a) m \<Rightarrow> ('a \<Rightarrow> ('f, 'b) m) \<Rightarrow> ('f, 'b) m" where
  "m_bind c f =
     (\<lambda>w. case c w of
             None \<Rightarrow> None
           | Some (Inl e, w') \<Rightarrow> Some (Inl e, w')
           | Some (Inr x, w') \<Rightarrow> f x w')"

definition m_emit :: "event \<Rightarrow> ('f, unit) m" where
  "m_emit ev = (\<lambda>w. Some (Inr (), w\<lparr>log := log w @ [ev]\<rparr>))"

definition m_lift :: "(error + 'a) option \<Rightarrow> ('f, 'a) m" where
  "m_lift r = (\<lambda>w. case r of None \<Rightarrow> None | Some x \<Rightarrow> Some (x, w))"

definition m_schema :: "('f, field_dict list) m" where
  "m_schema = (\<lambda>w. Some (Inr (self_schema w), w))"

definition m_content_field_name :: "('f, string) m" where
  "m_content_field_name = (\<lambda>w. Some (Inr (self_content_field_name w), w))"

text \<open>A \<^verbatim>\<open>for\<close> loop whose body is run for its effect, and a list comprehension.\<close>

fun m_each :: "('a \<Rightarrow> ('f, unit) m) \<Rightarrow> 'a list \<Rightarrow> ('f, unit) m" where
  "m_each f [] = m_ret ()"
| "m_each f (x # xs) = m_bind (f x) (\<lambda>_. m_each f xs)"

fun m_map :: "('a \<Rightarrow> ('f, 'b) m) \<Rightarrow> 'a list \<Rightarrow> ('f, 'b list) m" where
  "m_map f [] = m_ret []"
| "m_map f (x # xs) = m_bind (f x) (\<lambda>y. m_bind (m_map f xs) (\<lambda>ys. m_ret (y # ys)))"

subsection \<open>Opening the database\<close>

text \<open>
  \<^verbatim>\<open>SearchBackend._database\<close>. A writable open creates the index when there is none,
  builds the schema from the site's fields and stores it; a read-only open fails when
  there is no index and loads the stored schema. The value returned stands for the
  database handle: the state of the index at the time of the call.
\<close>

definition database :: "'f engine \<Rightarrow> bool \<Rightarrow> ('f, 'f index_store) m" where
  "database env writable =
     (\<lambda>w. if writable then
             (case build_schema (site_fields env) of
                (cfn, schema) \<Rightarrow>
                  let st = (case store w of
                              None \<Rightarrow> \<lparr>documents = [], metadata_schema = [], metadata_content = []\<rparr>
                            | Some s \<Rightarrow> s);
                      st' = st\<lparr>metadata_schema := schema, metadata_content := cfn\<rparr>
                  in Some (Inr st',
                           w\<lparr>store := Some st', self_schema := schema,
                             self_content_field_name := cfn,
                             log := log w @ [OpenDatabase True]\<rparr>))
           else
             (case store w of
                None \<Rightarrow> Some (Inl DatabaseOpeningError, w\<lparr>log := log w @ [OpenDatabase False]\<rparr>)
              | Some st \<Rightarrow>
                  Some (Inr st,
                        w\<lparr>self_schema := metadata_schema st,
                          self_content_field_name := metadata_content st,
                          log := log w @ [OpenDatabase False]\<rparr>)))"

text \<open>\<^verbatim>\<open>database.delete_document\<close>, by document id and by term.\<close>

definition delete_document_id :: "nat \<Rightarrow> ('f, unit) m" where
  "delete_document_id i =
     (\<lambda>w. Some (Inr (),
             w\<lparr>store := map_option
                          (\<lambda>st. st\<lparr>documents := filter (\<lambda>d. docid d \<noteq> i) (documents st)\<rparr>)
                          (store w),
               log := log w @ [DeleteDocId i]\<rparr>))"

definition delete_document_term :: "string \<Rightarrow> ('f, unit) m" where
  "delete_document_term t =
     (\<lambda>w. Some (Inr (),
             w\<lparr>store := map_option
                          (\<lambda>st. st\<lparr>documents := filter (\<lambda>d. t \<notin> set (terms d)) (documents st)\<rparr>)
                          (store w),
               log := log w @ [DeleteTerm t]\<rparr>))"

subsection \<open>Queries and match sets\<close>

definition py_upper :: "string \<Rightarrow> string" where
  "py_upper s =
     map (\<lambda>c. let n = of_char c in if (97::nat) \<le> n \<and> n \<le> 122 then char_of (n - 32) else c) s"

text \<open>\<^verbatim>\<open>sub in s\<close> on strings.\<close>

fun contains :: "string \<Rightarrow> string \<Rightarrow> bool" where
  "contains sub [] = (sub = [])"
| "contains sub (c # cs) = (take (length sub) (c # cs) = sub \<or> contains sub cs)"

text \<open>\<^verbatim>\<open>SearchBackend._flags\<close>; the flag set is the list of its flags.\<close>

definition flags :: "'f engine \<Rightarrow> string \<Rightarrow> flag list" where
  "flags env query_string =
     [FLAG_PARTIAL, FLAG_PHRASE, FLAG_BOOLEAN, FLAG_LOVEHATE] @
     (if CHR ''*'' \<in> set query_string then [FLAG_WILDCARD] else []) @
     (if contains ''NOT'' (py_upper query_string) then [FLAG_PURE_NOT] else []) @
     (if include_spelling env then [FLAG_SPELLING_CORRECTION] else [])"

text \<open>
  \<^verbatim>\<open>SearchBackend._query_parser\<close>: the parser is the table of its prefixes, the boolean
  prefix \<^verbatim>\<open>django_ct\<close> first.
\<close>

definition query_parser :: "field_dict list \<Rightarrow> (string \<times> string) list" where
  "query_parser schema =
     (''django_ct'', DOCUMENT_CT_TERM_PREFIX) #
     map (\<lambda>field_dict. (field_name field_dict,
                          DOCUMENT_CUSTOM_TERM_PREFIX @ py_upper (field_name field_dict))) schema"

text \<open>
  \<^verbatim>\<open>qp.parse_query(s, self._flags(s))\<close> for a parser \<^verbatim>\<open>qp\<close> with the value range
  processor added.
\<close>

definition parse ::
  "'f engine \<Rightarrow> 'f index_store \<Rightarrow> (string \<times> string) list \<Rightarrow> field_dict list \<Rightarrow> string \<Rightarrow>
   ('f, 'f query) m" where
  "parse env db qp schema s =
     m_bind (m_emit (ParseQuery s))
       (\<lambda>_. case parse_query env db qp (value_range_processor (ext env) schema) s (flags env s) of
               Inl e \<Rightarrow> m_raise e
             | Inr q \<Rightarrow> m_ret q)"

text \<open>
  \<^verbatim>\<open>SearchBackend._query\<close>. The parser \<^verbatim>\<open>qp\<close> is made in the \<^verbatim>\<open>else\<close> branch only, so
  narrowing the query \<^verbatim>\<open>*\<close> reads a local variable that was never bound.
\<close>

definition query_of ::
  "'f engine \<Rightarrow> 'f index_store \<Rightarrow> string \<Rightarrow> string list option \<Rightarrow>
   (string \<times> 'f pyval) list option \<Rightarrow> ('f, 'f query \<times> string option) m" where
  "query_of env db query_string narrow_queries boost =
     m_bind m_schema (\<lambda>schema.
     m_bind
       (if query_string = ''*'' then m_ret (MatchAll, None)
        else m_bind (parse env db (query_parser schema) schema query_string) (\<lambda>q.
             m_ret (q, if include_spelling env
                       then Some (corrected_query_string env db query_string) else None)))
       (\<lambda>(query, spelling_suggestion).
     m_bind
       (case narrow_queries of
          None \<Rightarrow> m_ret query
        | Some nqs \<Rightarrow>
            if nqs = [] then m_ret query
            else if query_string = ''*'' then m_raise UnboundLocalError
            else m_bind (m_map (parse env db (query_parser schema) schema) nqs) (\<lambda>subqueries.
                 m_ret (OpFilter query (OpAnd subqueries))))
       (\<lambda>query.
     m_ret
       (case boost of
          None \<Rightarrow> query
        | Some b \<Rightarrow>
            if b = [] then query
            else OpOr [query, OpAnd (map (\<lambda>(term, v). OpScaleWeight (QTerm term) v) b)],
        spelling_suggestion))))"

text \<open>
  \<^verbatim>\<open>enquire.get_mset(first, maxitems)\<close> for the enquire object that \<^verbatim>\<open>_enquire\<close> makes for a
  query (and a sorter, when one was set): of the documents that match, in the engine's
  order, at most \<open>maxitems\<close> after the first \<open>first\<close>, each with its weight.
\<close>

record 'f mset =
  items :: "('f document \<times> 'f) list"
  estimated :: nat

definition get_mset ::
  "'f engine \<Rightarrow> 'f index_store \<Rightarrow> 'f query \<Rightarrow> (nat \<times> bool) list option \<Rightarrow> nat \<Rightarrow> nat \<Rightarrow>
   ('f, 'f mset) m" where
  "get_mset env db query srt first maxitems =
     m_bind (m_emit (GetMSet first maxitems))
       (\<lambda>_. m_ret
          \<lparr>items = map (\<lambda>d. (d, weight env query d))
                     (take maxitems (drop first
                        (filter (matches query) (mset_order env srt query (documents db))))),
           estimated = matches_estimated env query (documents db)\<rparr>)"

text \<open>
  \<^verbatim>\<open>XHExpandDecider.__call__\<close>, and \<^verbatim>\<open>enquire.get_eset(maxitems, rset, decider)\<close>: of the
  terms the engine proposes for the documents of the relevance set, those the decider
  accepts, at most \<open>maxitems\<close>.
\<close>

definition expand_decider :: "string \<Rightarrow> bool" where
  "expand_decider t =
     (if take (length DOCUMENT_CT_TERM_PREFIX) t = DOCUMENT_CT_TERM_PREFIX then False else True)"

definition get_eset ::
  "'f engine \<Rightarrow> 'f index_store \<Rightarrow> nat \<Rightarrow> nat list \<Rightarrow> (string \<Rightarrow> bool) \<Rightarrow> ('f, string list) m" where
  "get_eset env db maxitems rset decider =
     m_bind (m_emit (GetESet maxitems))
       (\<lambda>_. m_ret
          (take maxitems
             (filter decider
                (expand_terms env (filter (\<lambda>d. docid d \<in> set rset) (documents db))
                   (documents db)))))"

section \<open>The backend\<close>

subsection \<open>Results\<close>

text \<open>
  A \<^verbatim>\<open>SearchResult\<close>: what the stored data and the match give it. Its attributes, as
  far as the facets read them, are the prepared fields of \<^verbatim>\<open>model_data\<close>; an attribute
  it does not have reads as \<^verbatim>\<open>None\<close>.
\<close>

record 'f search_result =
  r_app_label :: string
  r_module_name :: string
  r_pk :: "'f pyval"
  r_score :: 'f
  r_model_data :: "(string \<times> 'f pyval) list"
  r_highlighted :: "(string \<times> 'f pyval option) option"

definition getattr :: "'f search_result \<Rightarrow> string \<Rightarrow> 'f pyval option" where
  "getattr result name = map_of (r_model_data result) name"

record 'f facets_dict =
  f_fields :: "(string \<times> ('f pyval option \<times> nat) list) list"
  f_dates :: "(string \<times> (string \<times> nat) list) list"
  f_queries :: "(string \<times> string \<times> nat) list"

text \<open>
  The dictionary a search returns. The keys \<^verbatim>\<open>facets\<close> and \<^verbatim>\<open>spelling_suggestion\<close> are
  not always there: \<open>None\<close> is the missing key.
\<close>

record 'f response =
  results :: "'f search_result list"
  hits :: nat
  facets_key :: "'f facets_dict option"
  spelling_suggestion_key :: "string option option"

text \<open>A dictionary is a list of pairs with distinct keys, in the order of insertion.\<close>

fun dict_set :: "'k \<Rightarrow> 'v \<Rightarrow> ('k \<times> 'v) list \<Rightarrow> ('k \<times> 'v) list" where
  "dict_set k v [] = [(k, v)]"
| "dict_set k v ((k', v') # kvs) = (if k' = k then (k, v) # kvs else (k', v') # dict_set k v kvs)"

subsection \<open>Highlighting\<close>

definition is_space :: "char \<Rightarrow> bool" where
  "is_space c = (c \<in> set [CHR '' '', CHR 0x09, CHR 0x0A, CHR 0x0B, CHR 0x0C, CHR 0x0D])"

text \<open>\<^verbatim>\<open>text.split()\<close>: the maximal runs of characters that are not white space.\<close>

fun split_ws :: "string \<Rightarrow> string \<Rightarrow> string list" where
  "split_ws cur [] = (if cur = [] then [] else [cur])"
| "split_ws cur (c # cs) =
     (if is_space c then (if cur = [] then split_ws [] cs else cur # split_ws [] cs)
      else split_ws (cur @ [c]) cs)"

text \<open>
  \<^verbatim>\<open>SearchBackend._do_highlight\<close>. The content is what \<^verbatim>\<open>model_data.get\<close> returned;
  \<^verbatim>\<open>sub\<close> raises \<^verbatim>\<open>TypeError\<close> on a content that is not text.
\<close>

fun highlight_loop ::
  "'f engine \<Rightarrow> string \<Rightarrow> string list \<Rightarrow> 'f pyval option \<Rightarrow> error + 'f pyval option" where
  "highlight_loop env tag [] content = Inr content"
| "highlight_loop env tag (term # rest) content =
     (if term \<noteq> ''AND'' \<and> term \<noteq> ''OR''
      then (case content of
              Some (PText c) \<Rightarrow>
                highlight_loop env tag rest
                  (Some (PText (re_sub env term
                     (''<'' @ tag @ ''>'' @ term @ ''</'' @ tag @ ''>'') c)))
            | _ \<Rightarrow> Inl TypeError)
      else highlight_loop env tag rest content)"

definition do_highlight ::
  "'f engine \<Rightarrow> 'f pyval option \<Rightarrow> string \<Rightarrow> string \<Rightarrow> error + 'f pyval option" where
  "do_highlight env content text tag =
     highlight_loop env tag (map (filter (\<lambda>c. c \<noteq> CHR ''*'')) (split_ws [] text)) content"

text \<open>\<^verbatim>\<open>SearchResult(app_label, module_name, pk, match.weight, **model_data)\<close>.\<close>

definition plain_result :: "'f document \<times> 'f \<Rightarrow> 'f search_result" where
  "plain_result match =
     (case data (fst match) of
        (app_label, module_name, pk, model_data) \<Rightarrow>
          \<lparr>r_app_label = app_label, r_module_name = module_name, r_pk = pk,
           r_score = snd match, r_model_data = model_data, r_highlighted = None\<rparr>)"

text \<open>
  The body of the loop \<^verbatim>\<open>for match in matches\<close> of \<^verbatim>\<open>search\<close>; with highlighting, the
  entry \<^verbatim>\<open>highlighted\<close> is put into \<^verbatim>\<open>model_data\<close> first.
\<close>

definition result_of_match ::
  "'f engine \<Rightarrow> bool \<Rightarrow> string \<Rightarrow> string \<Rightarrow> 'f document \<times> 'f \<Rightarrow> error + 'f search_result" where
  "result_of_match env hl query_string cfn match =
     (case data (fst match) of
        (app_label, module_name, pk, model_data) \<Rightarrow>
          if hl \<and> length query_string > 0
          then (case do_highlight env (map_of model_data cfn) query_string ''em'' of
                  Inl e \<Rightarrow> Inl e
                | Inr h \<Rightarrow> Inr ((plain_result match)\<lparr>r_highlighted := Some (cfn, h)\<rparr>))
          else Inr (plain_result match))"

fun results_of ::
  "'f engine \<Rightarrow> bool \<Rightarrow> string \<Rightarrow> string \<Rightarrow> ('f document \<times> 'f) list \<Rightarrow>
   error + 'f search_result list" where
  "results_of env hl query_string cfn [] = Inr []"
| "results_of env hl query_string cfn (match # ms) =
     (case result_of_match env hl query_string cfn match of
        Inl e \<Rightarrow> Inl e
      | Inr r \<Rightarrow>
          (case results_of env hl query_string cfn ms of
             Inl e \<Rightarrow> Inl e
           | Inr rs \<Rightarrow> Inr (r # rs)))"

subsection \<open>Field facets\<close>

text \<open>
  \<^verbatim>\<open>SearchBackend._do_field_facets\<close>. A list cannot be the key of a dictionary
  (\<^verbatim>\<open>TypeError\<close>); the values of one field are compared as they are.
\<close>

fun count_values ::
  "string \<Rightarrow> 'f search_result list \<Rightarrow> ('f pyval option \<times> nat) list \<Rightarrow>
   error + ('f pyval option \<times> nat) list" where
  "count_values fld [] facet_list = Inr facet_list"
| "count_values fld (result # rs) facet_list =
     (case getattr result fld of
        Some (PList xs) \<Rightarrow> Inl TypeError
      | field_value \<Rightarrow>
          count_values fld rs
            (dict_set field_value
               ((case map_of facet_list field_value of None \<Rightarrow> 0 | Some c \<Rightarrow> c) + 1) facet_list))"

fun do_field_facets ::
  "'f search_result list \<Rightarrow> string list \<Rightarrow>
   (string \<times> ('f pyval option \<times> nat) list) list \<Rightarrow>
   error + (string \<times> ('f pyval option \<times> nat) list) list" where
  "do_field_facets rs [] facet_dict = Inr facet_dict"
| "do_field_facets rs (fld # field_facets) facet_dict =
     (case count_values fld rs [] of
        Inl e \<Rightarrow> Inl e
      | Inr facet_list \<Rightarrow> do_field_facets rs field_facets (dict_set fld facet_list facet_dict))"

subsection \<open>Date facets over the results\<close>

text \<open>\<^verbatim>\<open>if result_date:\<close> on the value of an attribute.\<close>

definition truthy :: "'f externals \<Rightarrow> 'f pyval \<Rightarrow> bool" where
  "truthy E v =
     (case v of
        PInt i \<Rightarrow> i \<noteq> 0
      | PBool b \<Rightarrow> b
      | PFloat x \<Rightarrow> float_nonzero E x
      | PDate d \<Rightarrow> True
      | PDateTime t \<Rightarrow> True
      | PText s \<Rightarrow> s \<noteq> []
      | PList xs \<Rightarrow> xs \<noteq> []
      | PTuple xs \<Rightarrow> xs \<noteq> [])"

definition midnight :: "date \<Rightarrow> datetime" where
  "midnight d =
     \<lparr>year = d_year d, month = d_month d, day = d_day d, hour = 0, minute = 0, second = 0,
      microsecond = 0\<rparr>"

text \<open>
  The loop \<^verbatim>\<open>for result in results\<close>: a result with no date is passed over, a date
  without a time is taken at midnight, any other value has no \<^verbatim>\<open>year\<close>
  (\<^verbatim>\<open>AttributeError\<close>).
\<close>

fun tally_results ::
  "'f externals \<Rightarrow> string \<Rightarrow> 'f search_result list \<Rightarrow> (string \<times> nat) list \<Rightarrow>
   error + (string \<times> nat) list" where
  "tally_results E date_facet [] facet_list = Inr facet_list"
| "tally_results E date_facet (result # rs) facet_list =
     (case getattr result date_facet of
        None \<Rightarrow> tally_results E date_facet rs facet_list
      | Some v \<Rightarrow>
          if truthy E v
          then (case (case v of
                        PDateTime t \<Rightarrow> tally t facet_list
                      | PDate d \<Rightarrow> tally (midnight d) facet_list
                      | _ \<Rightarrow> Inl AttributeError) of
                  Inl e \<Rightarrow> Inl e
                | Inr facet_list' \<Rightarrow> tally_results E date_facet rs facet_list')
          else tally_results E date_facet rs facet_list)"

text \<open>The body of the loop over \<^verbatim>\<open>date_facets.iteritems()\<close>, for one facet.\<close>

definition date_facet_list ::
  "'f externals \<Rightarrow> 'f search_result list \<Rightarrow> string \<Rightarrow> facet_params \<Rightarrow>
   (error + (string \<times> nat) list) option" where
  "date_facet_list E rs date_facet prm =
     (case bucket_loop (gap_by prm) (gap_amount prm) (end_date prm) (start_date prm) [] of
        None \<Rightarrow> None
      | Some (Inl e) \<Rightarrow> Some (Inl e)
      | Some (Inr facet_list) \<Rightarrow> Some (tally_results E date_facet rs (sorted_reverse facet_list)))"

text \<open>\<^verbatim>\<open>SearchBackend._do_date_facets\<close>.\<close>

fun do_date_facets ::
  "'f externals \<Rightarrow> 'f search_result list \<Rightarrow> (string \<times> facet_params) list \<Rightarrow>
   (string \<times> (string \<times> nat) list) list \<Rightarrow>
   (error + (string \<times> (string \<times> nat) list) list) option" where
  "do_date_facets E rs [] facet_dict = Some (Inr facet_dict)"
| "do_date_facets E rs ((date_facet, prm) # date_facets) facet_dict =
     (case date_facet_list E rs date_facet prm of
        None \<Rightarrow> None
      | Some (Inl e) \<Rightarrow> Some (Inl e)
      | Some (Inr facet_list) \<Rightarrow>
          do_date_facets E rs date_facets (dict_set date_facet facet_list facet_dict))"

subsection \<open>Query facets and search\<close>

text \<open>
  \<^verbatim>\<open>SearchBackend._do_query_facets\<close>; \<open>self_search\<close> is the bound method
  \<^verbatim>\<open>self.search\<close>, called with the query alone.
\<close>

fun do_query_facets ::
  "(string \<Rightarrow> ('f, 'f response) m) \<Rightarrow> (string \<times> string) list \<Rightarrow>
   (string \<times> string \<times> nat) list \<Rightarrow> ('f, (string \<times> string \<times> nat) list) m" where
  "do_query_facets self_search [] facet_dict = m_ret facet_dict"
| "do_query_facets self_search ((fld, query) # query_facets) facet_dict =
     m_bind (self_search query) (\<lambda>r.
       do_query_facets self_search query_facets (dict_set fld (query, hits r) facet_dict))"

text \<open>The arguments of \<^verbatim>\<open>search\<close>; the unused \<^verbatim>\<open>fields\<close> and \<^verbatim>\<open>**kwargs\<close> are left out.\<close>

record 'f search_args =
  query_string :: string
  sort_by :: "string list option"
  start_offset :: nat
  end_offset :: nat
  highlight :: bool
  facets :: "string list option"
  date_facets :: "(string \<times> facet_params) list option"
  query_facets :: "(string \<times> string) list option"
  narrow_queries :: "string list option"
  boost :: "(string \<times> 'f pyval) list option"

text \<open>\<^verbatim>\<open>self.search(query)\<close>: every other argument at its default.\<close>

definition default_args :: "string \<Rightarrow> 'f search_args" where
  "default_args q =
     \<lparr>query_string = q, sort_by = None, start_offset = 0, end_offset = DEFAULT_MAX_RESULTS,
      highlight = False, facets = None, date_facets = None, query_facets = None,
      narrow_queries = None, boost = None\<rparr>"

text \<open>\<^verbatim>\<open>if x:\<close> on an optional list or dictionary.\<close>

definition nonempty :: "'a list option \<Rightarrow> bool" where
  "nonempty x = (case x of None \<Rightarrow> False | Some xs \<Rightarrow> xs \<noteq> [])"

definition query_facets_warning :: string where
  "query_facets_warning = ''Query faceting has not been implemented yet.''"

text \<open>
  \<^verbatim>\<open>SearchBackend.search\<close>. It calls itself through \<^verbatim>\<open>_do_query_facets\<close>, with the
  default arguments, so the nested call computes no facets and calls no further.
\<close>

function search :: "'f engine \<Rightarrow> 'f search_args \<Rightarrow> ('f, 'f response) m" where
  "search env a w =
     (if query_string a = []
      then m_ret \<lparr>results = [], hits = 0, facets_key = None, spelling_suggestion_key = None\<rparr> w
      else
        m_bind (if query_facets a \<noteq> None then m_emit (Warn query_facets_warning) else m_ret ())
          (\<lambda>_.
        m_bind (database env False) (\<lambda>db.
        m_bind (query_of env db (query_string a) (narrow_queries a) (boost a))
          (\<lambda>(query, spelling_suggestion).
        m_bind m_schema (\<lambda>schema.
        m_bind (get_mset env db query
                  (if nonempty (sort_by a) then Some (sorter schema (the (sort_by a))) else None)
                  (start_offset a) (end_offset a)) (\<lambda>matches.
        m_bind m_content_field_name (\<lambda>cfn.
        m_bind (m_lift (Some (results_of env (highlight a) (query_string a) cfn (items matches))))
          (\<lambda>rs.
        m_bind (if nonempty (facets a)
                then m_lift (Some (do_field_facets rs (the (facets a)) []))
                else m_ret []) (\<lambda>ff.
        m_bind (if nonempty (date_facets a)
                then m_lift (do_date_facets (ext env) rs (the (date_facets a)) [])
                else m_ret []) (\<lambda>df.
        m_bind (if nonempty (query_facets a)
                then do_query_facets (\<lambda>q w'. search env (default_args q) w')
                       (the (query_facets a)) []
                else m_ret []) (\<lambda>qf.
        m_ret \<lparr>results = rs, hits = estimated matches,
               facets_key = Some \<lparr>f_fields = ff, f_dates = df, f_queries = qf\<rparr>,
               spelling_suggestion_key = Some spelling_suggestion\<rparr>)))))))))) w)"
  by pat_completeness auto
termination
  by (relation "measure (\<lambda>(env, a, w). if nonempty (query_facets a) then 1 else 0)")
    (auto simp: default_args_def nonempty_def)

declare search.simps [simp del]

subsection \<open>Clearing and counting\<close>

text \<open>\<^verbatim>\<open>SearchBackend.clear\<close>; a model is its \<^verbatim>\<open>(app_label, module_name)\<close>.\<close>

definition clear :: "'f engine \<Rightarrow> (string \<times> string) list \<Rightarrow> ('f, unit) m" where
  "clear env models =
     m_bind (database env True) (\<lambda>db.
       if models = []
       then m_bind (query_of env db ''*'' None None) (\<lambda>(query, unused).
            m_bind (get_mset env db query None 0 DEFAULT_MAX_RESULTS) (\<lambda>matches.
            m_each (\<lambda>match. delete_document_id (docid (fst match))) (items matches)))
       else m_each (\<lambda>(app_label, module_name).
                      delete_document_term
                        (DOCUMENT_CT_TERM_PREFIX @ app_label @ ''.'' @ module_name)) models)"

text \<open>\<^verbatim>\<open>SearchBackend.document_count\<close>.\<close>

definition document_count :: "'f engine \<Rightarrow> ('f, nat) m" where
  "document_count env =
     (\<lambda>w. case database env False w of
             None \<Rightarrow> None
           | Some (Inl e, w') \<Rightarrow>
               if e = DatabaseOpeningError then Some (Inr 0, w') else Some (Inl e, w')
           | Some (Inr db, w') \<Rightarrow> Some (Inr (length (documents db)), w'))"

subsection \<open>More like this\<close>

text \<open>
  A model instance is its \<^verbatim>\<open>app_label\<close>, \<^verbatim>\<open>module_name\<close> and \<^verbatim>\<open>pk\<close>;
  \<^verbatim>\<open>get_identifier\<close> puts \<^verbatim>\<open>Q\<close> before the three, joined by dots.
\<close>

record 'f model_instance =
  mi_app_label :: string
  mi_module_name :: string
  mi_pk :: "'f pyval"

definition get_identifier :: "'f engine \<Rightarrow> 'f model_instance \<Rightarrow> string" where
  "get_identifier env obj =
     DOCUMENT_ID_TERM_PREFIX @ mi_app_label obj @ ''.'' @ mi_module_name obj @ ''.'' @
     py_str (ext env) (mi_pk obj)"

text \<open>
  The query that \<^verbatim>\<open>more_like_this\<close> derives from the expansion terms, before the
  additional query is joined to it.
\<close>

definition expansion_query :: "string list \<Rightarrow> string \<Rightarrow> 'f query" where
  "expansion_query eset ident = OpAndNot (OpOr (map QTerm eset)) (QTerm ident)"

text \<open>The match set of \<^verbatim>\<open>more_like_this\<close>: the method up to its last \<^verbatim>\<open>get_mset\<close>.\<close>

definition more_like_this_matches ::
  "'f engine \<Rightarrow> 'f model_instance \<Rightarrow> string option \<Rightarrow> nat \<Rightarrow> nat \<Rightarrow> ('f, 'f mset) m" where
  "more_like_this_matches env model_instance additional_query_string start end =
     m_bind (database env False) (\<lambda>db.
     m_bind (get_mset env db (QTerm (get_identifier env model_instance)) None 0
               DEFAULT_MAX_RESULTS) (\<lambda>ms.
     m_bind (get_eset env db DEFAULT_MAX_RESULTS (map (\<lambda>match. docid (fst match)) (items ms))
               expand_decider) (\<lambda>eset.
     m_bind (if nonempty additional_query_string
             then m_bind (query_of env db (the additional_query_string) None None)
                    (\<lambda>(additional_query, unused).
                  m_ret (OpAnd [expansion_query eset (get_identifier env model_instance),
                                additional_query]))
             else m_ret (expansion_query eset (get_identifier env model_instance))) (\<lambda>query.
     get_mset env db query None start end))))"

text \<open>\<^verbatim>\<open>SearchBackend.more_like_this\<close>.\<close>

definition more_like_this ::
  "'f engine \<Rightarrow> 'f model_instance \<Rightarrow> string option \<Rightarrow> nat \<Rightarrow> nat \<Rightarrow> ('f, 'f response) m" where
  "more_like_this env model_instance additional_query_string start end =
     m_bind (more_like_this_matches env model_instance additional_query_string start end)
       (\<lambda>matches.
     m_bind (m_lift (Some (results_of env False [] [] (items matches)))) (\<lambda>rs.
     m_ret \<lparr>results = rs, hits = estimated matches,
            facets_key = Some \<lparr>f_fields = [], f_dates = [], f_queries = []\<rparr>,
            spelling_suggestion_key = Some None\<rparr>))"

section \<open>Notions used in the properties\<close>


text \<open>
  \<^verbatim>\<open>update\<close> stores a document under the identifier term of the object whose data it
  holds; a document is identified when it carries that term.
\<close>

definition identified :: "'f engine \<Rightarrow> 'f document \<Rightarrow> bool" where
  "identified env d =
     (case data d of
        (app_label, module_name, pk, model_data) \<Rightarrow>
          get_identifier env
            \<lparr>mi_app_label = app_label, mi_module_name = module_name, mi_pk = pk\<rparr>
          \<in> set (terms d))"

text \<open>A result is the result for an object when it names its model and primary key.\<close>

definition result_for :: "'f search_result \<Rightarrow> 'f model_instance \<Rightarrow> bool" where
  "result_for r obj =
     (r_app_label r = mi_app_label obj \<and> r_module_name r = mi_module_name obj \<and>
      r_pk r = mi_pk obj)"


section \<open>Concrete surroundings for examples\<close>

text \<open>
  An engine for examples: no floats, no spelling, one indexed text field; the parser
  reads the query string as one term, a match set lists the documents in the order of
  the store, the estimate is the exact number of matches, and the expansion terms are
  the terms of the documents of the relevance set.
\<close>

definition term_engine :: "unit engine" where
  "term_engine =
     \<lparr>ext = no_floats, include_spelling = False,
      site_fields = [(''text'', \<lparr>document = True, indexed = True, kind = OtherField\<rparr>)],
      parse_query = (\<lambda>db qp vrp s fl. Inr (QTerm s)),
      corrected_query_string = (\<lambda>db s. []),
      mset_order = (\<lambda>srt q ds. ds),
      weight = (\<lambda>q d. ()),
      matches_estimated = (\<lambda>q ds. length (filter (matches q) ds)),
      expand_terms = (\<lambda>rs ds. remdups (concat (map terms rs))),
      re_sub = (\<lambda>p r c. c)\<rparr>"

text \<open>
  A document as \<^verbatim>\<open>update\<close> stores it for the object \<^verbatim>\<open>app.<model>\<close> with the primary key
  \<open>i\<close>: the identifier term, the type marker term, and the words of its text.
\<close>

definition stored_doc :: "nat \<Rightarrow> string \<Rightarrow> string list \<Rightarrow> unit document" where
  "stored_doc i model ws =
     \<lparr>docid = i,
      terms = (''Qapp.'' @ model @ ''.'' @ str_int (int i)) # (''XCONTENTTYPEapp.'' @ model) # ws,
      slots = [],
      data = (''app'', model, PInt (int i), [(''text'', PText (join '' '' ws))])\<rparr>"

definition world_of :: "unit document list \<Rightarrow> unit world" where
  "world_of ds =
     \<lparr>store = Some \<lparr>documents = ds,
                    metadata_schema = snd (build_schema (site_fields term_engine)),
                    metadata_content = ''text''\<rparr>,
      self_schema = [], self_content_field_name = [], log = []\<rparr>"

definition small_world :: "unit world" where
  "small_world =
     world_of [stored_doc 1 ''a'' [''x'', ''y''], stored_doc 2 ''a'' [''y'', ''z''],
               stored_doc 3 ''b'' [''x'', ''z'']]"

section \<open>Properties\<close>

subsection \<open>Decimal formatting\<close>

lemma fmt_12_5: "fmt_0d 12 5 = ''000000000005''"
  by code_simp

lemma str_int_5: "str_int 5 = ''5''"
  by code_simp

lemma digit_char_not_space: "n < 10 \<Longrightarrow> digit_char n \<noteq> CHR '' ''"
proof
  assume n: "n < 10" and eq: "digit_char n = CHR '' ''"
  have "of_char (digit_char n) = (48 + n) mod 256"
    by (simp add: digit_char_def)
  with eq have "(48 + n) mod 256 = (32::nat)" by simp
  with n show False by simp
qed

lemma nat_digits_no_space: "CHR '' '' \<notin> set (nat_digits n)"
proof (induction n rule: nat_digits.induct)
  case (1 n)
  show ?case
  proof (cases "n < 10")
    case True
    then show ?thesis
      using digit_char_not_space [of n] by (subst nat_digits.simps) auto
  next
    case False
    with "1.IH" have "CHR '' '' \<notin> set (nat_digits (n div 10))" by simp
    moreover have "digit_char (n mod 10) \<noteq> CHR '' ''"
      by (rule digit_char_not_space) simp
    ultimately show ?thesis using False by (subst nat_digits.simps) auto
  qed
qed

lemma fmt_0d_no_space: "CHR '' '' \<notin> set (fmt_0d w i)"
  using nat_digits_no_space [of "nat \<bar>i\<bar>"] by (auto simp: fmt_0d_def Let_def)

lemma colon_not_connector: "f @ CHR '':'' # v \<noteq> ''AND'' \<and> f @ CHR '':'' # v \<noteq> ''OR''"
proof -
  have "CHR '':'' \<in> set (f @ CHR '':'' # v)" by simp
  moreover have "CHR '':'' \<notin> set ''AND''" "CHR '':'' \<notin> set ''OR''" by simp_all
  ultimately show ?thesis by metis
qed

subsection \<open>The value marshaller\<close>

text \<open>
  C1. The marshalled strings of two integers are not always ordered as the integers
  are: \<open>-5 < -3\<close>, but \<^verbatim>\<open>'%012d'\<close> gives \<^verbatim>\<open>-00000000005\<close> and \<^verbatim>\<open>-00000000003\<close>, and the
  second string is the smaller one in the lexicographic order.
\<close>

theorem marshal_value_negative_int_order:
  "(- 5 :: int) < - 3 \<and> marshal_value E (PInt (- 3)) < marshal_value E (PInt (- 5))"
proof -
  have a: "fmt_0d 12 (- 5) = ''-00000000005''" by code_simp
  have b: "fmt_0d 12 (- 3) = ''-00000000003''" by code_simp
  have "(''-00000000003'' :: string) < ''-00000000005''" by code_simp
  then show ?thesis by (simp add: marshal_value_def a b)
qed

subsection \<open>The query compiler\<close>

text \<open>
  C2, as stated: the single negated \<^verbatim>\<open>gte\<close> filter on \<^verbatim>\<open>status\<close> with the value 5 does
  not compile to \<^verbatim>\<open>AND NOT status:5..*\<close>, whatever connector the filter carries.
\<close>

theorem build_query_negated_gte_counterexample:
  "build_query no_floats
     [\<lparr>field = ''status'', ftype = Gte, fvalue = PInt 5,
       is_and = False, is_or = False, is_not = True\<rparr>] []
     \<noteq> Inr ''AND NOT status:5..*'' \<and>
   build_query no_floats
     [\<lparr>field = ''status'', ftype = Gte, fvalue = PInt 5,
       is_and = True, is_or = False, is_not = True\<rparr>] []
     \<noteq> Inr ''AND NOT status:5..*'' \<and>
   build_query no_floats
     [\<lparr>field = ''status'', ftype = Gte, fvalue = PInt 5,
       is_and = False, is_or = True, is_not = True\<rparr>] []
     \<noteq> Inr ''AND NOT status:5..*''"
  by (simp add: build_query_def filter_chunks_def marshal_value_def fmt_12_5 has_space_def
      py_str_def)

text \<open>
  C2, amended: the value is marshalled to twelve digits, and the first chunk is dropped
  when it is \<^verbatim>\<open>AND\<close> or \<^verbatim>\<open>OR\<close>. A filter with no connector compiles to
  \<^verbatim>\<open>NOT status:000000000005..*\<close> (the \<^verbatim>\<open>AND\<close> of the negation rule is the first chunk
  and is dropped); a filter with the connector \<^verbatim>\<open>and\<close> compiles to
  \<^verbatim>\<open>AND NOT status:000000000005..*\<close> (the connector is dropped, the \<^verbatim>\<open>AND\<close> of the
  negation rule stays).
\<close>

theorem build_query_negated_gte:
  "build_query E
     [\<lparr>field = ''status'', ftype = Gte, fvalue = PInt 5,
       is_and = False, is_or = False, is_not = True\<rparr>] []
     = Inr ''NOT status:000000000005..*'' \<and>
   build_query E
     [\<lparr>field = ''status'', ftype = Gte, fvalue = PInt 5,
       is_and = True, is_or = False, is_not = True\<rparr>] []
     = Inr ''AND NOT status:000000000005..*''"
  by (simp add: build_query_def filter_chunks_def marshal_value_def fmt_12_5 has_space_def
      py_str_def)

text \<open>
  C9. For a field other than \<^verbatim>\<open>content\<close>, an \<^verbatim>\<open>exact\<close> filter on the integer \<open>v\<close>
  emits the marshalled value (twelve digits, zero-padded), while an \<^verbatim>\<open>in\<close> filter on
  the list or tuple of \<open>v\<close> alone emits \<^verbatim>\<open>str(v)\<close>; for \<open>v = 5\<close> the two texts differ.
\<close>

theorem in_values_not_marshalled:
  "f \<noteq> ''content'' \<Longrightarrow>
   build_query E
     [\<lparr>field = f, ftype = Exact, fvalue = PInt v,
       is_and = False, is_or = False, is_not = False\<rparr>] []
     = Inr (f @ '':'' @ fmt_0d 12 v) \<and>
   build_query E
     [\<lparr>field = f, ftype = In, fvalue = PList [PInt v],
       is_and = False, is_or = False, is_not = False\<rparr>] []
     = Inr (''('' @ f @ '':'' @ str_int v @ '')'') \<and>
   build_query E
     [\<lparr>field = f, ftype = In, fvalue = PTuple [PInt v],
       is_and = False, is_or = False, is_not = False\<rparr>] []
     = Inr (''('' @ f @ '':'' @ str_int v @ '')'') \<and>
   fmt_0d 12 5 \<noteq> str_int 5"
  by (simp add: build_query_def filter_chunks_def marshal_value_def has_space_def py_str_def
      fmt_0d_no_space iter_value_def fmt_12_5 str_int_5 colon_not_connector)

theorem in_values_not_marshalled_witness:
  "''n'' \<noteq> ''content'' \<and>
   build_query no_floats
     [\<lparr>field = ''n'', ftype = Exact, fvalue = PInt 5,
       is_and = False, is_or = False, is_not = False\<rparr>] []
     = Inr ''n:000000000005'' \<and>
   build_query no_floats
     [\<lparr>field = ''n'', ftype = In, fvalue = PList [PInt 5],
       is_and = False, is_or = False, is_not = False\<rparr>] []
     = Inr ''(n:5)''"
  using in_values_not_marshalled [of "''n''" no_floats 5] by (simp add: fmt_12_5 str_int_5)

subsection \<open>The schema and the sorter\<close>

lemma value_column_unknown:
  "fld \<notin> set (map field_name schema) \<Longrightarrow> value_column schema fld = 0"
  by (induction schema) auto

lemma schema_loop_first_column:
  "snd (schema_loop fl cfn col) = fd # rest \<Longrightarrow> column fd = col"
proof (induction fl arbitrary: cfn col)
  case Nil
  then show ?case by simp
next
  case (Cons a fl)
  obtain name fc where a: "a = (name, fc)" by (cases a)
  show ?case
  proof (cases "indexed fc")
    case True
    with Cons.prems a show ?thesis
      by (auto simp: Let_def field_data_def split: prod.splits)
  next
    case False
    with Cons.prems a Cons.IH show ?thesis by (auto simp: Let_def)
  qed
qed

text \<open>
  C10. For a field name that is not in the schema \<^verbatim>\<open>_value_column\<close> returns 0, so
  \<^verbatim>\<open>_sorter\<close> adds slot 0 for it, with and without the leading \<^verbatim>\<open>-\<close>; and slot 0 is the
  column of the first field of a schema that \<^verbatim>\<open>build_schema\<close> made.
\<close>

theorem unknown_sort_field_is_slot_0:
  "fld \<notin> set (map field_name schema) \<Longrightarrow>
   value_column schema fld = 0 \<and>
   sorter schema [CHR ''-'' # fld] = [(0, True)] \<and>
   ((\<forall>r. fld \<noteq> CHR ''-'' # r) \<longrightarrow> sorter schema [fld] = [(0, False)]) \<and>
   (\<forall>fd rest. snd (build_schema fl) = fd # rest \<longrightarrow> column fd = 0)"
  using schema_loop_first_column [of fl "[]" 0]
  by (auto simp: value_column_unknown build_schema_def split: list.splits)

theorem unknown_sort_field_is_slot_0_witness:
  "''zz'' \<notin> set (map field_name
       [\<lparr>field_name = ''name'', field_type = ''text'', multi_valued = ''false'', column = 0\<rparr>,
        \<lparr>field_name = ''n'', field_type = ''long'', multi_valued = ''false'', column = 1\<rparr>]) \<and>
   value_column
       [\<lparr>field_name = ''name'', field_type = ''text'', multi_valued = ''false'', column = 0\<rparr>,
        \<lparr>field_name = ''n'', field_type = ''long'', multi_valued = ''false'', column = 1\<rparr>]
       ''zz'' = 0 \<and>
   sorter
       [\<lparr>field_name = ''name'', field_type = ''text'', multi_valued = ''false'', column = 0\<rparr>,
        \<lparr>field_name = ''n'', field_type = ''long'', multi_valued = ''false'', column = 1\<rparr>]
       [''-zz''] = [(0, True)] \<and>
   sorter
       [\<lparr>field_name = ''name'', field_type = ''text'', multi_valued = ''false'', column = 0\<rparr>,
        \<lparr>field_name = ''n'', field_type = ''long'', multi_valued = ''false'', column = 1\<rparr>]
       [''zz''] = [(0, False)]"
  using unknown_sort_field_is_slot_0 [of "''zz''"
      "[\<lparr>field_name = ''name'', field_type = ''text'', multi_valued = ''false'', column = 0\<rparr>,
        \<lparr>field_name = ''n'', field_type = ''long'', multi_valued = ''false'', column = 1\<rparr>]" "[]"]
  by simp

subsection \<open>The range processor\<close>

text \<open>
  C3, at a token with both sides open: for the text field \<^verbatim>\<open>name\<close> the token
  \<^verbatim>\<open>name:..*\<close> (low bound empty, high bound \<^verbatim>\<open>*\<close>) gets the minimum sentinel \<^verbatim>\<open>a\<close>, but
  its high bound stays \<^verbatim>\<open>*\<close>: the maximum sentinel is in the \<^verbatim>\<open>elif\<close> branch.
\<close>

theorem range_both_open_keeps_star:
  "value_range_processor E
     [\<lparr>field_name = ''name'', field_type = ''text'', multi_valued = ''false'', column = 0\<rparr>]
     ''name:'' ''*'' = Inr (Some (0, ''a'', ''*''))"
  by (simp add: value_range_processor_def py_find_def slice_to_def slice_from_def
      range_for_field_def min_sentinel_def str_bound_def)

subsection \<open>The world\<close>

lemma m_bind_InrD:
  "m_bind c f w = Some (Inr y, w') \<Longrightarrow> \<exists>x w1. c w = Some (Inr x, w1) \<and> f x w1 = Some (Inr y, w')"
  by (auto simp: m_bind_def split: option.splits sum.splits prod.splits)

lemma m_ret_apply: "m_ret x w = Some (Inr x, w)"
  by (simp add: m_ret_def)

lemma m_raise_apply: "m_raise e w = Some (Inl e, w)"
  by (simp add: m_raise_def)


lemma m_lift_apply: "m_lift (Some x) w = Some (x, w)"
  by (simp add: m_lift_def)



lemma database_read_apply:
  "store w = Some st \<Longrightarrow>
   database env False w =
     Some (Inr st, w\<lparr>self_schema := metadata_schema st,
                      self_content_field_name := metadata_content st,
                      log := log w @ [OpenDatabase False]\<rparr>)"
  by (simp add: database_def)

lemma get_mset_apply:
  "get_mset env db query srt first maxitems w =
     Some (Inr \<lparr>items = map (\<lambda>d. (d, weight env query d))
                     (take maxitems (drop first
                        (filter (matches query) (mset_order env srt query (documents db))))),
                estimated = matches_estimated env query (documents db)\<rparr>,
           w\<lparr>log := log w @ [GetMSet first maxitems]\<rparr>)"
  by (simp add: get_mset_def m_bind_def m_emit_def m_ret_def)

lemma get_eset_apply:
  "get_eset env db maxitems rset decider w =
     Some (Inr (take maxitems
             (filter decider
                (expand_terms env (filter (\<lambda>d. docid d \<in> set rset) (documents db))
                   (documents db)))),
           w\<lparr>log := log w @ [GetESet maxitems]\<rparr>)"
  by (simp add: get_eset_def m_bind_def m_emit_def m_ret_def)


lemma m_bind_InrI:
  "c w = Some (Inr x, w1) \<Longrightarrow> f x w1 = Some (Inr y, w') \<Longrightarrow> m_bind c f w = Some (Inr y, w')"
  by (simp add: m_bind_def)

lemma if_False_apply: "\<not> c \<Longrightarrow> b w = r \<Longrightarrow> (if c then a else b) w = r"
  by simp


subsection \<open>Search with an empty query string\<close>

text \<open>
  C8. A search with the empty query string returns the dictionary with the two keys
  \<^verbatim>\<open>results\<close> (empty) and \<^verbatim>\<open>hits\<close> (0) and leaves the world as it was: the index is not
  opened, nothing is asked of the engine, nothing is logged.
\<close>

theorem search_empty_query:
  "search env (a\<lparr>query_string := []\<rparr>) w =
     Some (Inr \<lparr>results = [], hits = 0, facets_key = None, spelling_suggestion_key = None\<rparr>, w)"
  by (simp add: search.simps m_ret_def)

subsection \<open>Clearing the index\<close>

lemma filter_not_in_take:
  "distinct (map f xs) \<Longrightarrow> filter (\<lambda>x. f x \<notin> f ` set (take n xs)) xs = drop n xs"
proof -
  assume d: "distinct (map f xs)"
  have split: "xs = take n xs @ drop n xs" by simp
  from d have "distinct (map f (take n xs) @ map f (drop n xs))"
    by (metis append_take_drop_id map_append)
  then have disj: "f ` set (take n xs) \<inter> f ` set (drop n xs) = {}"
    by simp
  have a: "filter (\<lambda>x. f x \<notin> f ` set (take n xs)) (take n xs) = []"
    by (simp add: filter_empty_conv)
  have b: "filter (\<lambda>x. f x \<notin> f ` set (take n xs)) (drop n xs) = drop n xs"
    using disj by (auto simp: filter_id_conv)
  have "filter (\<lambda>x. f x \<notin> f ` set (take n xs)) (take n xs @ drop n xs) = drop n xs"
    unfolding filter_append a b by simp
  then show ?thesis by simp
qed

lemma delete_document_id_apply:
  "delete_document_id i w =
     Some (Inr (),
       w\<lparr>store := map_option
            (\<lambda>st. st\<lparr>documents := filter (\<lambda>d. docid d \<noteq> i) (documents st)\<rparr>) (store w),
         log := log w @ [DeleteDocId i]\<rparr>)"
  by (simp add: delete_document_id_def)

lemma m_each_deleting:
  assumes f: "\<And>m w. f m w =
      Some (Inr (),
        w\<lparr>store := map_option
             (\<lambda>st. st\<lparr>documents := filter (\<lambda>d. docid d \<noteq> k m) (documents st)\<rparr>) (store w),
          log := log w @ [DeleteDocId (k m)]\<rparr>)"
  shows "m_each f ms w =
     Some (Inr (),
       w\<lparr>store := map_option
            (\<lambda>st. st\<lparr>documents := filter (\<lambda>d. docid d \<notin> k ` set ms) (documents st)\<rparr>)
            (store w),
         log := log w @ map (\<lambda>m. DeleteDocId (k m)) ms\<rparr>)"
proof (induction ms arbitrary: w)
  case Nil
  show ?case by (cases "store w") (simp_all add: m_ret_def)
next
  case (Cons m ms)
  define w1 where "w1 = w\<lparr>store := map_option
             (\<lambda>st. st\<lparr>documents := filter (\<lambda>d. docid d \<noteq> k m) (documents st)\<rparr>) (store w),
          log := log w @ [DeleteDocId (k m)]\<rparr>"
  have "m_each f (m # ms) w = m_each f ms w1"
    by (simp add: m_bind_def f [of m w] w1_def)
  also have "\<dots> = Some (Inr (),
       w1\<lparr>store := map_option
            (\<lambda>st. st\<lparr>documents := filter (\<lambda>d. docid d \<notin> k ` set ms) (documents st)\<rparr>)
            (store w1),
         log := log w1 @ map (\<lambda>m. DeleteDocId (k m)) ms\<rparr>)"
    by (rule Cons.IH)
  finally show ?case
    by (cases "store w") (simp_all add: w1_def conj_commute)
qed

lemma m_each_delete:
  "m_each (\<lambda>m. delete_document_id (docid (fst m))) ms w =
     Some (Inr (),
       w\<lparr>store := map_option
            (\<lambda>st. st\<lparr>documents := filter (\<lambda>d. docid d \<notin> (\<lambda>m. docid (fst m)) ` set ms) (documents st)\<rparr>)
            (store w),
         log := log w @ map (\<lambda>m. DeleteDocId (docid (fst m))) ms\<rparr>)"
  by (rule m_each_deleting) (rule delete_document_id_apply)

lemma clear_all:
  assumes order: "mset_order env None MatchAll (documents st) = documents st"
    and st: "store w = Some st"
    and dist: "distinct (map docid (documents st))"
  shows "\<exists>w'. clear env [] w = Some (Inr (), w') \<and>
           map_option documents (store w') = Some (drop DEFAULT_MAX_RESULTS (documents st))"
proof -
  obtain cfn schema where bs: "build_schema (site_fields env) = (cfn, schema)"
    by (cases "build_schema (site_fields env)")
  have img: "(\<lambda>m. docid (fst m)) ` (\<lambda>d. (d, weight env MatchAll d)) ` S = docid ` S" for S
    by (simp add: image_image)
  show ?thesis
    using filter_not_in_take [OF dist, of DEFAULT_MAX_RESULTS]
    by (simp add: clear_def database_def bs st m_bind_def query_of_def m_schema_def m_ret_def
        get_mset_def m_emit_def m_each_delete order img Let_def)
qed

text \<open>
  C6, on an index of 100001 documents: \<^verbatim>\<open>clear()\<close> deletes the documents of one match
  set of at most \<^verbatim>\<open>DEFAULT_MAX_RESULTS\<close> = 100000 matches, so one document is left and
  \<^verbatim>\<open>document_count()\<close> is 1 afterwards.
\<close>

theorem clear_all_stops_at_max_results:
  "\<exists>w'. clear term_engine [] (world_of (map (\<lambda>i. stored_doc i ''a'' []) [1..<100002])) =
           Some (Inr (), w') \<and>
         map_option fst (document_count term_engine w') = Some (Inr 1)"
proof -
  let ?ds = "map (\<lambda>i. stored_doc i ''a'' []) [1..<100002]"
  let ?st = "\<lparr>documents = ?ds, metadata_schema = snd (build_schema (site_fields term_engine)),
              metadata_content = ''text''\<rparr>"
  have order: "mset_order term_engine None MatchAll (documents ?st) = documents ?st"
    by (simp add: term_engine_def)
  have st: "store (world_of ?ds) = Some ?st"
    by (simp add: world_of_def)
  have "map docid ?ds = [1..<100002]"
    by (simp add: stored_doc_def comp_def)
  then have dist: "distinct (map docid (documents ?st))"
    by simp
  from clear_all [OF order st dist]
  obtain w' where run: "clear term_engine [] (world_of ?ds) = Some (Inr (), w')"
    and left: "map_option documents (store w') = Some (drop DEFAULT_MAX_RESULTS ?ds)"
    by auto
  from left obtain st' where st': "store w' = Some st'"
    and docs: "documents st' = drop DEFAULT_MAX_RESULTS ?ds"
    by auto
  have "length (documents st') = 1"
    unfolding docs by (simp add: DEFAULT_MAX_RESULTS_def)
  then have "map_option fst (document_count term_engine w') = Some (Inr 1)"
    by (simp add: document_count_def database_def st')
  with run show ?thesis by blast
qed

subsection \<open>Date facets\<close>

text \<open>
  C4, for a gap of two months. From 2009-12-01 to 2011-01-01 the code makes the one
  bucket 2009-12-01: in December the gap is added to the year, so the next start is
  2011-01-01 (steps of two months give 2009-12-01, 2010-02-01, ..., 2010-12-01). From
  2009-11-01 to 2010-03-01 the code raises \<^verbatim>\<open>ValueError\<close>: it asks for the month 13
  (steps of two months give 2009-11-01 and 2010-01-01).
\<close>

theorem do_date_facets_month_gap:
  "do_date_facets E []
     [(''pub_date'',
       \<lparr>start_date = \<lparr>year = 2009, month = 12, day = 1, hour = 0, minute = 0, second = 0,
                       microsecond = 0\<rparr>,
        end_date = \<lparr>year = 2011, month = 1, day = 1, hour = 0, minute = 0, second = 0,
                     microsecond = 0\<rparr>,
        gap_by = Some ''month'', gap_amount = 2\<rparr>)] []
     = Some (Inr [(''pub_date'', [(''2009-12-01T00:00:00'', 0)])]) \<and>
   do_date_facets E []
     [(''pub_date'',
       \<lparr>start_date = \<lparr>year = 2009, month = 11, day = 1, hour = 0, minute = 0, second = 0,
                       microsecond = 0\<rparr>,
        end_date = \<lparr>year = 2010, month = 3, day = 1, hour = 0, minute = 0, second = 0,
                     microsecond = 0\<rparr>,
        gap_by = Some ''month'', gap_amount = 2\<rparr>)] []
     = Some (Inl ValueError)"
proof -
  have a: "bucket_loop (Some ''month'') 2
      \<lparr>year = 2011, month = 1, day = 1, hour = 0, minute = 0, second = 0, microsecond = 0\<rparr>
      \<lparr>year = 2009, month = 12, day = 1, hour = 0, minute = 0, second = 0, microsecond = 0\<rparr> []
      = Some (Inr [(''2009-12-01T00:00:00'', 0)])"
    by code_simp
  have b: "bucket_loop (Some ''month'') 2
      \<lparr>year = 2010, month = 3, day = 1, hour = 0, minute = 0, second = 0, microsecond = 0\<rparr>
      \<lparr>year = 2009, month = 11, day = 1, hour = 0, minute = 0, second = 0, microsecond = 0\<rparr> []
      = Some (Inl ValueError)"
    by code_simp
  have c: "sorted_reverse [(''2009-12-01T00:00:00'', 0)] = [(''2009-12-01T00:00:00'', 0)]"
    by (simp add: sorted_reverse_def)
  show ?thesis
    by (simp add: date_facet_list_def a b c del: One_nat_def)
qed

subsection \<open>More like this\<close>

lemma results_of_plain:
  "results_of env False qs cfn ms = Inr (map plain_result ms)"
  by (induction ms) (simp_all add: result_of_match_def split: prod.splits)

lemma get_mset_items:
  assumes "get_mset env db query srt first maxitems w = Some (Inr ms, w')"
  shows "items ms = map (\<lambda>d. (d, weight env query d))
           (take maxitems (drop first (filter (matches query) (mset_order env srt query (documents db)))))"
  using assms by (auto simp: get_mset_def m_bind_def m_emit_def m_ret_def)

lemma database_read:
  "database env False w = Some (Inr db, w1) \<Longrightarrow> store w = Some db"
  by (auto simp: database_def split: option.splits)

lemma expansion_query_excludes:
  "matches (expansion_query eset ident) d \<Longrightarrow> ident \<notin> set (terms d)"
  by (simp add: expansion_query_def)

lemma m_bind_InrE:
  assumes "m_bind c f w = Some (Inr y, w')"
  obtains x w1 where "c w = Some (Inr x, w1)" and "f x w1 = Some (Inr y, w')"
  using assms by (auto simp: m_bind_def split: option.splits sum.splits prod.splits)

lemma get_eset_result:
  assumes "get_eset env db maxitems rset decider w = Some (Inr eset, w')"
  shows "eset = take maxitems (filter decider
           (expand_terms env (filter (\<lambda>d. docid d \<in> set rset) (documents db)) (documents db)))"
    and "w' = w\<lparr>log := log w @ [GetESet maxitems]\<rparr>"
  using assms by (simp_all add: get_eset_apply)

lemma get_mset_world:
  assumes "get_mset env db query srt first maxitems w = Some (Inr ms, w')"
  shows "w' = w\<lparr>log := log w @ [GetMSet first maxitems]\<rparr>"
  using assms by (simp add: get_mset_apply)

lemma database_read_world:
  assumes "database env False w = Some (Inr db, w1)"
  shows "w1 = w\<lparr>self_schema := metadata_schema db,
                 self_content_field_name := metadata_content db,
                 log := log w @ [OpenDatabase False]\<rparr>"
proof -
  from assms have "store w = Some db" by (rule database_read)
  from database_read_apply [OF this, of env] assms show ?thesis by simp
qed

lemma more_like_this_matches_exact:
  assumes run: "more_like_this_matches env obj aqs start end w = Some (Inr ms, w')"
  shows "\<exists>db rset eset query.
           store w = Some db \<and>
           rset = map docid (take DEFAULT_MAX_RESULTS
                    (filter (matches (QTerm (get_identifier env obj)))
                       (mset_order env None (QTerm (get_identifier env obj)) (documents db)))) \<and>
           eset = take DEFAULT_MAX_RESULTS (filter expand_decider
                    (expand_terms env (filter (\<lambda>d. docid d \<in> set rset) (documents db))
                       (documents db))) \<and>
           (if nonempty aqs
            then \<exists>aq unused w4.
                   query_of env db (the aqs) None None
                     (w\<lparr>self_schema := metadata_schema db,
                        self_content_field_name := metadata_content db,
                        log := log w @ [OpenDatabase False, GetMSet 0 DEFAULT_MAX_RESULTS,
                                        GetESet DEFAULT_MAX_RESULTS]\<rparr>)
                   = Some (Inr (aq, unused), w4) \<and>
                   query = OpAnd [expansion_query eset (get_identifier env obj), aq]
            else query = expansion_query eset (get_identifier env obj)) \<and>
           items ms = map (\<lambda>d. (d, weight env query d))
                        (take end (drop start
                           (filter (matches query) (mset_order env None query (documents db)))))"
  using run unfolding more_like_this_matches_def
proof (elim m_bind_InrE)
  fix db w1 ms0 w2 eset w3 query w4
  let ?ident = "get_identifier env obj"
  assume db: "database env False w = Some (Inr db, w1)"
    and m0: "get_mset env db (QTerm ?ident) None 0 DEFAULT_MAX_RESULTS w1 = Some (Inr ms0, w2)"
    and eset: "get_eset env db DEFAULT_MAX_RESULTS (map (\<lambda>match. docid (fst match)) (items ms0))
               expand_decider w2 = Some (Inr eset, w3)"
    and q: "(if nonempty aqs
             then m_bind (query_of env db (the aqs) None None)
                    (\<lambda>(additional_query, unused).
                  m_ret (OpAnd [expansion_query eset ?ident, additional_query]))
             else m_ret (expansion_query eset ?ident)) w3 = Some (Inr query, w4)"
    and last: "get_mset env db query None start end w4 = Some (Inr ms, w')"
  let ?rset = "map docid (take DEFAULT_MAX_RESULTS
                    (filter (matches (QTerm ?ident))
                       (mset_order env None (QTerm ?ident) (documents db))))"
  let ?w3 = "w\<lparr>self_schema := metadata_schema db,
                self_content_field_name := metadata_content db,
                log := log w @ [OpenDatabase False, GetMSet 0 DEFAULT_MAX_RESULTS,
                                GetESet DEFAULT_MAX_RESULTS]\<rparr>"
  have c1: "store w = Some db" using db by (rule database_read)
  have rs: "map (\<lambda>match. docid (fst match)) (items ms0) = ?rset"
    unfolding get_mset_items [OF m0] by (simp add: comp_def)
  have c3: "eset = take DEFAULT_MAX_RESULTS (filter expand_decider
                    (expand_terms env (filter (\<lambda>d. docid d \<in> set ?rset) (documents db))
                       (documents db)))"
    using get_eset_result(1) [OF eset] unfolding rs .
  have w3: "w3 = ?w3"
    unfolding get_eset_result(2) [OF eset] get_mset_world [OF m0] database_read_world [OF db]
    by simp
  have c4: "if nonempty aqs
            then \<exists>aq unused w4.
                   query_of env db (the aqs) None None ?w3 = Some (Inr (aq, unused), w4) \<and>
                   query = OpAnd [expansion_query eset ?ident, aq]
            else query = expansion_query eset ?ident"
  proof (cases "nonempty aqs")
    case True
    with q have "m_bind (query_of env db (the aqs) None None)
                    (\<lambda>(additional_query, unused).
                  m_ret (OpAnd [expansion_query eset ?ident, additional_query])) w3
                 = Some (Inr query, w4)"
      by simp
    then obtain p w5 where qo: "query_of env db (the aqs) None None w3 = Some (Inr p, w5)"
      and rest: "(case p of (additional_query, unused) \<Rightarrow>
        m_ret (OpAnd [expansion_query eset ?ident, additional_query])) w5 = Some (Inr query, w4)"
      by (rule m_bind_InrE)
    obtain aq unused where p: "p = (aq, unused)" by (cases p)
    from rest p have "query = OpAnd [expansion_query eset ?ident, aq]"
      by (simp add: m_ret_def)
    moreover from qo p w3
    have "query_of env db (the aqs) None None ?w3 = Some (Inr (aq, unused), w5)"
      by simp
    ultimately show ?thesis using True by auto
  next
    case False
    with q show ?thesis by (simp add: m_ret_def)
  qed
  have c5: "items ms = map (\<lambda>d. (d, weight env query d))
                        (take end (drop start
                           (filter (matches query) (mset_order env None query (documents db)))))"
    using last by (rule get_mset_items)
  show ?thesis
    by (rule exI [of _ db], rule exI [of _ ?rset], rule exI [of _ eset], rule exI [of _ query])
      (intro conjI, rule c1, rule refl, rule c3, rule c4, rule c5)
qed

text \<open>
  C5. When \<^verbatim>\<open>more_like_this\<close> returns, the expansion terms \<^verbatim>\<open>eset\<close> are the terms that
  \<^verbatim>\<open>get_eset\<close> yields for the relevance set of the seed's identifier term: the first
  \<^verbatim>\<open>DEFAULT_MAX_RESULTS\<close> terms the engine proposes that pass \<^verbatim>\<open>XHExpandDecider\<close>, so none of
  them starts with the type marker prefix \<^verbatim>\<open>XCONTENTTYPE\<close>. The query handed to the engine is
  \<^verbatim>\<open>OR\<close> of exactly these terms \<^verbatim>\<open>AND NOT\<close> the seed's identifier term, joined by \<^verbatim>\<open>AND\<close> to
  the parsed additional query when there is one. The results are the documents of the
  window \<^verbatim>\<open>start\<close>, \<^verbatim>\<open>end\<close> of the match set of that query, in the engine's order; none of them
  carries the seed's identifier term; and when every stored document carries the
  identifier term of its own object and the engine lists stored documents only, no result
  is a result for the seed.
\<close>

theorem more_like_this_excludes_seed:
  assumes run: "more_like_this env obj aqs start end w = Some (Inr r, w')"
  shows "\<exists>db rset eset query ms.
           store w = Some db \<and>
           rset = map docid (take DEFAULT_MAX_RESULTS
                    (filter (matches (QTerm (get_identifier env obj)))
                       (mset_order env None (QTerm (get_identifier env obj)) (documents db)))) \<and>
           eset = take DEFAULT_MAX_RESULTS (filter expand_decider
                    (expand_terms env (filter (\<lambda>d. docid d \<in> set rset) (documents db))
                       (documents db))) \<and>
           (\<forall>t \<in> set eset. take (length DOCUMENT_CT_TERM_PREFIX) t \<noteq> DOCUMENT_CT_TERM_PREFIX) \<and>
           (if nonempty aqs
            then \<exists>aq unused w4.
                   query_of env db (the aqs) None None
                     (w\<lparr>self_schema := metadata_schema db,
                        self_content_field_name := metadata_content db,
                        log := log w @ [OpenDatabase False, GetMSet 0 DEFAULT_MAX_RESULTS,
                                        GetESet DEFAULT_MAX_RESULTS]\<rparr>)
                   = Some (Inr (aq, unused), w4) \<and>
                   query = OpAnd [expansion_query eset (get_identifier env obj), aq]
            else query = expansion_query eset (get_identifier env obj)) \<and>
           more_like_this_matches env obj aqs start end w = Some (Inr ms, w') \<and>
           items ms = map (\<lambda>d. (d, weight env query d))
                        (take end (drop start
                           (filter (matches query) (mset_order env None query (documents db))))) \<and>
           results r = map plain_result (items ms) \<and>
           (\<forall>m \<in> set (items ms).
              matches query (fst m) \<and> get_identifier env obj \<notin> set (terms (fst m))) \<and>
           ((\<forall>d \<in> set (documents db). identified env d) \<and>
            (\<forall>srt q ds. set (mset_order env srt q ds) \<subseteq> set ds) \<longrightarrow>
            (\<forall>x \<in> set (results r). \<not> result_for x obj))"
  using run unfolding more_like_this_def
proof (elim m_bind_InrE)
  fix ms w1 rs w2
  let ?ident = "get_identifier env obj"
  assume ms: "more_like_this_matches env obj aqs start end w = Some (Inr ms, w1)"
    and rs: "m_lift (Some (results_of env False [] [] (items ms))) w1 = Some (Inr rs, w2)"
    and r: "m_ret \<lparr>results = rs, hits = estimated ms,
            facets_key = Some \<lparr>f_fields = [], f_dates = [], f_queries = []\<rparr>,
            spelling_suggestion_key = Some None\<rparr> w2 = Some (Inr r, w')"
  from rs have rs_eq: "rs = map plain_result (items ms)" and w12: "w2 = w1"
    by (auto simp: m_lift_def results_of_plain)
  from r have res: "results r = rs" and w2': "w' = w2"
    by (auto simp: m_ret_def)
  from more_like_this_matches_exact [OF ms] obtain db rset eset query where
    db: "store w = Some db"
    and rset: "rset = map docid (take DEFAULT_MAX_RESULTS
                    (filter (matches (QTerm ?ident))
                       (mset_order env None (QTerm ?ident) (documents db))))"
    and eset: "eset = take DEFAULT_MAX_RESULTS (filter expand_decider
                    (expand_terms env (filter (\<lambda>d. docid d \<in> set rset) (documents db))
                       (documents db)))"
    and shape: "if nonempty aqs
            then \<exists>aq unused w4.
                   query_of env db (the aqs) None None
                     (w\<lparr>self_schema := metadata_schema db,
                        self_content_field_name := metadata_content db,
                        log := log w @ [OpenDatabase False, GetMSet 0 DEFAULT_MAX_RESULTS,
                                        GetESet DEFAULT_MAX_RESULTS]\<rparr>)
                   = Some (Inr (aq, unused), w4) \<and>
                   query = OpAnd [expansion_query eset ?ident, aq]
            else query = expansion_query eset ?ident"
    and its: "items ms = map (\<lambda>d. (d, weight env query d))
                        (take end (drop start
                           (filter (matches query) (mset_order env None query (documents db)))))"
    by (elim exE conjE)
  have mt: "matches query (fst m) \<and> fst m \<in> set (mset_order env None query (documents db))"
    if "m \<in> set (items ms)" for m
  proof -
    from that its have "fst m \<in> set (take end (drop start
        (filter (matches query) (mset_order env None query (documents db)))))"
      by auto
    then have "fst m \<in> set (filter (matches query) (mset_order env None query (documents db)))"
      by (meson in_set_dropD in_set_takeD)
    then show ?thesis by simp
  qed
  have incl: "matches (expansion_query eset ?ident) d" if "matches query d" for d
    using shape that by (cases "nonempty aqs") auto
  have excl: "?ident \<notin> set (terms (fst m))" if "m \<in> set (items ms)" for m
  proof -
    from mt [OF that] have "matches query (fst m)" by simp
    then have "matches (expansion_query eset ?ident) (fst m)" by (rule incl)
    then show ?thesis by (rule expansion_query_excludes)
  qed
  have no_ct: "\<forall>t \<in> set eset. take (length DOCUMENT_CT_TERM_PREFIX) t \<noteq> DOCUMENT_CT_TERM_PREFIX"
  proof
    fix t
    assume "t \<in> set eset"
    then have "t \<in> set (filter expand_decider
                    (expand_terms env (filter (\<lambda>d. docid d \<in> set rset) (documents db))
                       (documents db)))"
      unfolding eset by (rule in_set_takeD)
    then have "expand_decider t" by simp
    then show "take (length DOCUMENT_CT_TERM_PREFIX) t \<noteq> DOCUMENT_CT_TERM_PREFIX"
      by (auto simp: expand_decider_def split: if_splits)
  qed
  have part: "\<forall>m \<in> set (items ms).
      matches query (fst m) \<and> ?ident \<notin> set (terms (fst m))"
    using mt excl by blast
  have seed: "(\<forall>d \<in> set (documents db). identified env d) \<and>
      (\<forall>srt q ds. set (mset_order env srt q ds) \<subseteq> set ds) \<longrightarrow>
      (\<forall>x \<in> set (results r). \<not> result_for x obj)"
  proof (intro impI ballI, elim conjE)
    fix x
    assume inv: "\<forall>d \<in> set (documents db). identified env d"
      and sub: "\<forall>srt q ds. set (mset_order env srt q ds) \<subseteq> set ds"
      and "x \<in> set (results r)"
    with res rs_eq obtain m where m: "m \<in> set (items ms)" and x: "x = plain_result m"
      by auto
    from mt [OF m] have "fst m \<in> set (mset_order env None query (documents db))" by simp
    with sub have "fst m \<in> set (documents db)" by blast
    with inv have idd: "identified env (fst m)" by blast
    have free: "?ident \<notin> set (terms (fst m))" using m by (rule excl)
    show "\<not> result_for x obj"
    proof
      assume "result_for x obj"
      then have "?ident \<in> set (terms (fst m))"
        using idd unfolding x
        by (cases "data (fst m)")
          (auto simp: result_for_def plain_result_def identified_def get_identifier_def)
      with free show False by contradiction
    qed
  qed
  have c2: "more_like_this_matches env obj aqs start end w = Some (Inr ms, w')"
    using ms w12 w2' by simp
  have c3: "results r = map plain_result (items ms)"
    using res rs_eq by simp
  show ?thesis
    by (rule exI [of _ db], rule exI [of _ rset], rule exI [of _ eset], rule exI [of _ query],
        rule exI [of _ ms])
      (intro conjI, rule db, rule rset, rule eset, rule no_ct, rule shape, rule c2, rule its,
        rule c3, rule part, rule seed)
qed

lemma str_int_123: "str_int 1 = ''1''" "str_int 2 = ''2''" "str_int 3 = ''3''"
  by code_simp+

lemma more_like_this_small_world:
  "\<exists>r w'. more_like_this term_engine
             \<lparr>mi_app_label = ''app'', mi_module_name = ''a'', mi_pk = PInt 1\<rparr> None 0 10
             small_world = Some (Inr r, w') \<and>
          map r_pk (results r) = [PInt 2, PInt 3]"
  apply (intro exI conjI)
  unfolding more_like_this_def more_like_this_matches_def
   apply (rule m_bind_InrI)
    apply (rule m_bind_InrI)
     apply (rule database_read_apply)
     apply (simp add: small_world_def world_of_def)
    apply (rule m_bind_InrI)
     apply (rule get_mset_apply)
    apply (rule m_bind_InrI)
     apply (rule get_eset_apply)
    apply (rule m_bind_InrI)
     apply (rule if_False_apply)
      apply (simp add: nonempty_def)
     apply (rule m_ret_apply)
    apply (rule get_mset_apply)
   apply (rule m_bind_InrI)
    apply (simp only: results_of_plain)
    apply (rule m_lift_apply)
   apply (rule m_ret_apply)
  apply (simp add: stored_doc_def
      term_engine_def get_identifier_def no_floats_def py_str_def str_int_123 expansion_query_def
      expand_decider_def DOCUMENT_CT_TERM_PREFIX_def DOCUMENT_CUSTOM_TERM_PREFIX_def
      DOCUMENT_ID_TERM_PREFIX_def DEFAULT_MAX_RESULTS_def plain_result_def)
  done

theorem more_like_this_excludes_seed_witness:
  "\<exists>r w'. more_like_this term_engine
             \<lparr>mi_app_label = ''app'', mi_module_name = ''a'', mi_pk = PInt 1\<rparr> None 0 10
             small_world = Some (Inr r, w') \<and>
          map r_pk (results r) = [PInt 2, PInt 3] \<and>
          (\<forall>x \<in> set (results r).
             \<not> result_for x \<lparr>mi_app_label = ''app'', mi_module_name = ''a'', mi_pk = PInt 1\<rparr>)"
proof -
  let ?seed = "\<lparr>mi_app_label = ''app'', mi_module_name = ''a'', mi_pk = PInt 1\<rparr> :: unit model_instance"
  from more_like_this_small_world obtain r w' where
    run: "more_like_this term_engine ?seed None 0 10 small_world = Some (Inr r, w')"
    and pks: "map r_pk (results r) = [PInt 2, PInt 3]"
    by (elim exE conjE)
  from more_like_this_excludes_seed [OF run] obtain db where
    db: "store small_world = Some db"
    and imp: "(\<forall>d \<in> set (documents db). identified term_engine d) \<and>
            (\<forall>srt q ds. set (mset_order term_engine srt q ds) \<subseteq> set ds) \<longrightarrow>
            (\<forall>x \<in> set (results r). \<not> result_for x ?seed)"
    by (elim exE conjE)
  from db have "\<forall>d \<in> set (documents db). identified term_engine d"
    by (auto simp: small_world_def world_of_def stored_doc_def identified_def get_identifier_def
        term_engine_def no_floats_def py_str_def DOCUMENT_ID_TERM_PREFIX_def)
  moreover have "\<forall>srt q ds. set (mset_order term_engine srt q ds) \<subseteq> set ds"
    by (simp add: term_engine_def)
  ultimately have none: "\<forall>x \<in> set (results r). \<not> result_for x ?seed"
    using imp by blast
  show ?thesis
    by (rule exI [of _ r], rule exI [of _ w']) (intro conjI, rule run, rule pks, rule none)
qed

subsection \<open>The log only grows\<close>




















subsection \<open>Query facets\<close>



















end
